theory Spec2Isabelle
  imports Main
begin

section \<open>Outcomes of calls into the outside world\<close>

text \<open>
  The program is JavaScript that talks to a browser, an SQLite store, the file system
  and worker threads. Each such call either returns a value or throws; the model makes
  that an explicit value. What the outside world answers is read from an environment
  record (an oracle), what the program changes is threaded through a world record.
  Loggers are no-ops in the model. Inside one function the \<^verbatim>\<open>await\<close>s run in program
  order, so a function is modelled as the sequence of its steps.
\<close>

datatype 'a outcome = Returns 'a | Throws

section \<open>config.js: automation constants\<close>

record config =
  MAX_LOGIN_RETRIES :: nat
  PROFILE_CLEANUP_ON_FAILURE :: bool
  STAGGER_DELAY :: nat

definition default_config :: config where
  "default_config = \<lparr>MAX_LOGIN_RETRIES = 2, PROFILE_CLEANUP_ON_FAILURE = True,
     STAGGER_DELAY = 45000\<rparr>"

section \<open>init\_db.js: the task\_monitoring table\<close>

text \<open>
  What the column \<^verbatim>\<open>point\<close> can hold. SQLite types values, not columns: a number
  bound to the column is kept as a number and a text can be kept as a text.
\<close>

datatype point_value = PointNumber int | PointText string

text \<open>
  One row of \<^verbatim>\<open>task_monitoring\<close>. The column \<^verbatim>\<open>last_updated\<close> (a wall-clock
  timestamp) is left out. The table is a list of rows in insertion order; the schema puts
  no uniqueness constraint on (key\_id, proxy, service).
\<close>

record task_row =
  t_id :: int
  t_key_id :: int
  t_proxy :: string
  t_service :: string
  t_state :: string
  t_retry_count :: int
  t_point :: point_value

section \<open>automationManager.js: the state the orchestrator works on\<close>

text \<open>A record of the failure log \<^verbatim>\<open>fail_tasks.json\<close>.\<close>

record fail_entry =
  fe_key :: string
  fe_proxy :: string
  fe_service :: string
  fe_timestamp :: string

text \<open>
  The failure log file: absent, a JSON array of records, or content that
  \<^verbatim>\<open>JSON.parse\<close> (or the following \<^verbatim>\<open>push\<close>) rejects.
\<close>

datatype log_file = Absent | JsonArray "fail_entry list" | Malformed

type_synonym session = nat

record world =
  task_monitoring :: "task_row list"
  fail_tasks_file :: log_file
  removed_profiles :: "string list"
  store_ops :: nat
  session_calls :: nat
  login_calls :: nat
  check_calls :: nat

text \<open>
  The environment of the orchestrator: whether the n-th store statement succeeds (opening
  the connection included), what session creation answers for a profile path and a proxy,
  whether the final tab reset, the removal of a profile directory and the write of the
  failure log succeed, the timestamp of the clock and the working directory; and what the
  column \<^verbatim>\<open>point\<close>, of INTEGER affinity, keeps of a text bound to it (SQLite turns a
  text that is a numeric literal into a number and keeps any other text).
\<close>

record env =
  store_ok :: "nat \<Rightarrow> bool"
  createSession :: "string \<Rightarrow> string \<Rightarrow> session outcome"
  tabReset :: "session option \<Rightarrow> unit outcome"
  rmSync_ok :: "string \<Rightarrow> bool"
  writeFile_ok :: bool
  now_iso :: string
  cwd :: string
  column_affinity :: "string \<Rightarrow> point_value"

text \<open>
  The capability object \<^verbatim>\<open>this.tokenPlugin\<close>: the answer of the n-th call of
  \<^verbatim>\<open>login\<close> and of \<^verbatim>\<open>check\<close> for a service name. A check answers
  \<^verbatim>\<open>false\<close> or a value that the handler stores as the point: a number (an integer
  here) or a string.
\<close>

datatype check_value = CheckFalse | CheckPoint point_value

record plugin =
  plugin_login :: "string \<Rightarrow> nat \<Rightarrow> bool outcome"
  plugin_check :: "string \<Rightarrow> nat \<Rightarrow> check_value outcome"

text \<open>A pair as \<^verbatim>\<open>loadKeyProxyData\<close> yields it: \<^verbatim>\<open>{ id, the_key, proxy }\<close>.\<close>

record key_proxy =
  kp_id :: int
  kp_the_key :: string
  kp_proxy :: string

subsection \<open>Store access\<close>

definition is_cntp_task :: "int \<Rightarrow> string \<Rightarrow> task_row \<Rightarrow> bool" where
  "is_cntp_task keyId proxy r \<longleftrightarrow>
     t_key_id r = keyId \<and> t_proxy r = proxy \<and> t_service r = ''cntp''"

text \<open>\<^verbatim>\<open>db.get\<close> of a SELECT with this WHERE clause: the first matching row, if any.\<close>

definition select_task :: "task_row list \<Rightarrow> int \<Rightarrow> string \<Rightarrow> task_row option" where
  "select_task rows keyId proxy = find (is_cntp_task keyId proxy) rows"

text \<open>The rowid SQLite gives an inserted row: 1 in an empty table, otherwise one more than
  the largest in the table.\<close>

definition next_id :: "task_row list \<Rightarrow> int" where
  "next_id rows = (case rows of [] \<Rightarrow> 1 | r # rest \<Rightarrow> fold max (map t_id rest) (t_id r) + 1)"

definition store_step :: "world \<Rightarrow> world" where
  "store_step w = w\<lparr>store_ops := store_ops w + 1\<rparr>"

text \<open>
  \<^verbatim>\<open>initializeCNTPTask\<close>: look the row up; insert a pending one when there is none. Any
  store error is caught and logged.
\<close>

definition initializeCNTPTask :: "env \<Rightarrow> int \<Rightarrow> string \<Rightarrow> world \<Rightarrow> world" where
  "initializeCNTPTask e keyId proxy w =
     (if \<not> store_ok e (store_ops w) then store_step w
      else
        (case select_task (task_monitoring w) keyId proxy of
           Some existing \<Rightarrow> store_step w
         | None \<Rightarrow>
             (let w1 = store_step w in
              if \<not> store_ok e (store_ops w1) then store_step w1
              else (store_step w1)\<lparr>task_monitoring := task_monitoring w1 @
                     [\<lparr>t_id = next_id (task_monitoring w1), t_key_id = keyId, t_proxy = proxy,
                       t_service = ''cntp'', t_state = ''pending'', t_retry_count = 0,
                       t_point = PointNumber 0\<rparr>]\<rparr>)))"

text \<open>\<^verbatim>\<open>getCNTPTaskState\<close>: the state of the row, \<^verbatim>\<open>null\<close> when there is none or on a store error.\<close>

definition getCNTPTaskState :: "env \<Rightarrow> int \<Rightarrow> string \<Rightarrow> world \<Rightarrow> string option \<times> world" where
  "getCNTPTaskState e keyId proxy w =
     (if \<not> store_ok e (store_ops w) then (None, store_step w)
      else (map_option t_state (select_task (task_monitoring w) keyId proxy), store_step w))"

text \<open>What the column keeps of the value bound to the parameter \<^verbatim>\<open>point\<close>.\<close>

definition store_point :: "env \<Rightarrow> point_value \<Rightarrow> point_value" where
  "store_point e point =
     (case point of PointNumber n \<Rightarrow> PointNumber n | PointText s \<Rightarrow> column_affinity e s)"

text \<open>
  \<^verbatim>\<open>updateCNTPTaskState\<close>: an UPDATE of state and point on every matching row; a store
  error is caught and logged. The value of \<^verbatim>\<open>point\<close> is bound as it is given.
\<close>

definition updateCNTPTaskState ::
    "env \<Rightarrow> int \<Rightarrow> string \<Rightarrow> string \<Rightarrow> point_value \<Rightarrow> world \<Rightarrow> world" where
  "updateCNTPTaskState e keyId proxy newState point w =
     (if \<not> store_ok e (store_ops w) then store_step w
      else (store_step w)\<lparr>task_monitoring :=
              map (\<lambda>r. if is_cntp_task keyId proxy r
                        then r\<lparr>t_state := newState, t_point := store_point e point\<rparr> else r)
                  (task_monitoring w)\<rparr>)"

subsection \<open>Profiles and the failure log\<close>

text \<open>
  \<^verbatim>\<open>getProfilePath\<close>: every character outside \<^verbatim>\<open>[a-zA-Z0-9]\<close> becomes an underscore;
  the path is resolved against the working directory. Strings are byte lists here.
\<close>

definition alnum :: "char \<Rightarrow> bool" where
  "alnum c \<longleftrightarrow> (let n = (of_char c :: nat) in
     (48 \<le> n \<and> n \<le> 57) \<or> (65 \<le> n \<and> n \<le> 90) \<or> (97 \<le> n \<and> n \<le> 122))"

definition getProfilePath :: "env \<Rightarrow> string \<Rightarrow> string \<Rightarrow> string" where
  "getProfilePath e the_key proxy =
     cwd e @ ''/profiles/'' @ map (\<lambda>c. if alnum c then c else CHR ''_'') (the_key @ ''_'' @ proxy)"

text \<open>
  \<^verbatim>\<open>handleCleanup\<close>: remove the profile directory when the policy flag is set; an error
  of the removal is caught.
\<close>

definition handleCleanup :: "config \<Rightarrow> env \<Rightarrow> string \<Rightarrow> world \<Rightarrow> world" where
  "handleCleanup cfg e profilePath w =
     (if PROFILE_CLEANUP_ON_FAILURE cfg then
        (if rmSync_ok e profilePath
         then w\<lparr>removed_profiles := removed_profiles w @ [profilePath]\<rparr>
         else w)
      else w)"

text \<open>
  \<^verbatim>\<open>logFailedTask\<close>: read the array of the log file (empty when the file is absent), push
  one entry, write the file back. Parsing and writing can throw; nothing catches it here.
\<close>

definition logFailedTask :: "env \<Rightarrow> string \<Rightarrow> string \<Rightarrow> world \<Rightarrow> unit outcome \<times> world" where
  "logFailedTask e the_key proxy w =
     (let entry = \<lparr>fe_key = the_key, fe_proxy = proxy, fe_service = ''cntp'',
                   fe_timestamp = now_iso e\<rparr> in
      case fail_tasks_file w of
        Malformed \<Rightarrow> (Throws, w)
      | Absent \<Rightarrow>
          (if writeFile_ok e then (Returns (), w\<lparr>fail_tasks_file := JsonArray [entry]\<rparr>)
           else (Throws, w))
      | JsonArray data \<Rightarrow>
          (if writeFile_ok e then (Returns (), w\<lparr>fail_tasks_file := JsonArray (data @ [entry])\<rparr>)
           else (Throws, w)))"

subsection \<open>The per-pair handler\<close>

text \<open>
  The login loop of \<^verbatim>\<open>handleKeyProxyTask\<close>:
  \<^verbatim>\<open>while (!loginSuccess && loginAttempts < MAX_LOGIN_RETRIES)\<close>. A throw of the login
  call is caught inside the loop and counts as a failed attempt. The loop is entered with
  \<^verbatim>\<open>loginSuccess = false\<close>; it returns \<^verbatim>\<open>loginSuccess\<close> and the world.
\<close>

function login_loop :: "config \<Rightarrow> plugin \<Rightarrow> nat \<Rightarrow> world \<Rightarrow> bool \<times> world" where
  "login_loop cfg pl loginAttempts w =
     (if loginAttempts < MAX_LOGIN_RETRIES cfg then
        (let r = plugin_login pl ''cntp'' (login_calls w);
             w1 = w\<lparr>login_calls := login_calls w + 1\<rparr> in
         case r of
           Returns True \<Rightarrow> (True, w1)
         | Returns False \<Rightarrow> login_loop cfg pl (loginAttempts + 1) w1
         | Throws \<Rightarrow> login_loop cfg pl (loginAttempts + 1) w1)
      else (False, w))"
  by pat_completeness auto
termination
  by (relation "measure (\<lambda>(cfg, pl, n, w). MAX_LOGIN_RETRIES cfg - n)") auto

text \<open>
  The body of the \<^verbatim>\<open>try\<close> block: the outcome of the block, the session (undefined when
  its creation threw) and the world.
\<close>

definition attempt ::
    "config \<Rightarrow> env \<Rightarrow> plugin \<Rightarrow> key_proxy \<Rightarrow> string \<Rightarrow> world
       \<Rightarrow> unit outcome \<times> session option \<times> world" where
  "attempt cfg e pl kp profilePath w =
     (let w0 = w\<lparr>session_calls := session_calls w + 1\<rparr> in
      case createSession e profilePath (kp_proxy kp) of
        Throws \<Rightarrow> (Throws, None, w0)
      | Returns driver \<Rightarrow>
          (case login_loop cfg pl 0 w0 of
             (False, w1) \<Rightarrow>
               (let w2 = updateCNTPTaskState e (kp_id kp) (kp_proxy kp) ''failed'' (PointNumber 0) w1 in
                case logFailedTask e (kp_the_key kp) (kp_proxy kp) w2 of
                  (r, w3) \<Rightarrow> (r, Some driver, w3))
           | (True, w1) \<Rightarrow>
               (let w2 = w1\<lparr>check_calls := check_calls w1 + 1\<rparr> in
                case plugin_check pl ''cntp'' (check_calls w1) of
                  Throws \<Rightarrow> (Throws, Some driver, w2)
                | Returns CheckFalse \<Rightarrow>
                    (let w3 = updateCNTPTaskState e (kp_id kp) (kp_proxy kp) ''failed'' (PointNumber 0) w2 in
                     case logFailedTask e (kp_the_key kp) (kp_proxy kp) w3 of
                       (r, w4) \<Rightarrow> (r, Some driver, w4))
                | Returns (CheckPoint checkResult) \<Rightarrow>
                    (Returns (), Some driver,
                     updateCNTPTaskState e (kp_id kp) (kp_proxy kp) ''success'' checkResult w2))))"

text \<open>
  \<^verbatim>\<open>handleKeyProxyTask\<close>: ensure the task row, skip a terminal task, otherwise run the
  attempt; a throw of the attempt goes to \<^verbatim>\<open>handleCleanup\<close>; the tab reset of the
  \<^verbatim>\<open>finally\<close> block runs on every path through the \<^verbatim>\<open>try\<close>, and its throw is the
  handler's.
\<close>

definition handleKeyProxyTask ::
    "config \<Rightarrow> env \<Rightarrow> plugin \<Rightarrow> key_proxy \<Rightarrow> world \<Rightarrow> unit outcome \<times> world" where
  "handleKeyProxyTask cfg e pl kp w =
     (let profilePath = getProfilePath e (kp_the_key kp) (kp_proxy kp);
          w1 = initializeCNTPTask e (kp_id kp) (kp_proxy kp) w in
      case getCNTPTaskState e (kp_id kp) (kp_proxy kp) w1 of
        (state, w2) \<Rightarrow>
          if state = Some ''success'' \<or> state = Some ''failed'' then (Returns (), w2)
          else
            (case attempt cfg e pl kp profilePath w2 of
               (Throws, driver, w3) \<Rightarrow>
                 (tabReset e driver, handleCleanup cfg e profilePath w3)
             | (Returns u, driver, w3) \<Rightarrow> (tabReset e driver, w3)))"

subsection \<open>Reading the store and the failure log\<close>

text \<open>
  The state and the point a SELECT on the pair's row shows, the records of the failure
  log, and the terminal states of line 87 of the handler
  (\<^verbatim>\<open>state === 'success' || state === 'failed'\<close>).
\<close>

definition task_state :: "world \<Rightarrow> int \<Rightarrow> string \<Rightarrow> string option" where
  "task_state w keyId proxy = map_option t_state (select_task (task_monitoring w) keyId proxy)"

definition task_point :: "world \<Rightarrow> int \<Rightarrow> string \<Rightarrow> point_value option" where
  "task_point w keyId proxy = map_option t_point (select_task (task_monitoring w) keyId proxy)"

definition log_entries :: "log_file \<Rightarrow> fail_entry list" where
  "log_entries f = (case f of JsonArray data \<Rightarrow> data | Absent \<Rightarrow> [] | Malformed \<Rightarrow> [])"

definition terminal :: "string option \<Rightarrow> bool" where
  "terminal s \<longleftrightarrow> s = Some ''success'' \<or> s = Some ''failed''"

section \<open>CNTP.js and tokenHandler.js: the capability the orchestrator is given\<close>

text \<open>
  What the browser shows during one call of \<^verbatim>\<open>CNTPService.login\<close>: whether each step
  succeeds (a step that fails throws). \<^verbatim>\<open>lp_logged_in\<close> is the first wait for the
  login confirmation element.
\<close>

record login_page =
  lp_get_login_ok :: bool
  lp_logged_in :: bool
  lp_enterText_ok :: bool
  lp_click_ok :: bool
  lp_sleep_ok :: bool
  lp_get_extension_ok :: bool
  lp_confirm_ok :: bool

text \<open>
  What the browser shows during one call of \<^verbatim>\<open>CNTPService.check\<close>: whether the page
  loads and the sleep returns, and the text of the value element (\<^verbatim>\<open>None\<close> when the
  wait for the element or the read of its text throws).
\<close>

record check_page =
  cp_get_ok :: bool
  cp_sleep_ok :: bool
  cp_element_text :: "string option"

record browser =
  login_pages :: "nat \<Rightarrow> login_page"
  check_pages :: "nat \<Rightarrow> check_page"

definition CNTPService_login :: "login_page \<Rightarrow> bool" where
  "CNTPService_login pg =
     (if \<not> lp_get_login_ok pg then False
      else if lp_logged_in pg then True
      else if \<not> lp_enterText_ok pg then False
      else if \<not> lp_click_ok pg then False
      else if \<not> lp_sleep_ok pg then False
      else if \<not> lp_get_extension_ok pg then False
      else if \<not> lp_confirm_ok pg then False
      else True)"

text \<open>
  The JavaScript runtime: what the built-in \<^verbatim>\<open>parseInt\<close> answers on a string,
  \<^verbatim>\<open>None\<close> for \<^verbatim>\<open>NaN\<close> and otherwise the number (an integer here).
\<close>

record runtime =
  js_parseInt :: "string \<Rightarrow> int option"

text \<open>\<^verbatim>\<open>getValueSafe\<close>: the text of the element, \<^verbatim>\<open>'N/A'\<close> when it cannot be read.\<close>

definition getValueSafe :: "check_page \<Rightarrow> string" where
  "getValueSafe pg = (case cp_element_text pg of Some text \<Rightarrow> text | None \<Rightarrow> ''N/A'')"

text \<open>
  \<^verbatim>\<open>CNTPService.check\<close>: \<^verbatim>\<open>false\<close> when the page cannot be loaded; otherwise the value
  read, through \<^verbatim>\<open>parseInt\<close>, with \<^verbatim>\<open>NaN\<close> replaced by 0.
\<close>

definition CNTPService_check :: "runtime \<Rightarrow> check_page \<Rightarrow> check_value" where
  "CNTPService_check rt pg =
     (if \<not> cp_get_ok pg then CheckFalse
      else if \<not> cp_sleep_ok pg then CheckFalse
      else
        (let cntpValue = getValueSafe pg in
         case js_parseInt rt cntpValue of
           None \<Rightarrow> CheckPoint (PointNumber 0)
         | Some point \<Rightarrow> CheckPoint (PointNumber point)))"

text \<open>
  \<^verbatim>\<open>TokenPlugin\<close>: dispatch on the service name; the only service registered is
  \<^verbatim>\<open>cntp\<close>. An unknown service throws inside the \<^verbatim>\<open>try\<close>, which answers \<^verbatim>\<open>false\<close>.
\<close>

definition TokenPlugin_login :: "browser \<Rightarrow> string \<Rightarrow> nat \<Rightarrow> bool outcome" where
  "TokenPlugin_login b service n =
     (if service \<noteq> ''cntp'' then Returns False
      else Returns (CNTPService_login (login_pages b n)))"

definition TokenPlugin_check ::
    "runtime \<Rightarrow> browser \<Rightarrow> string \<Rightarrow> nat \<Rightarrow> check_value outcome" where
  "TokenPlugin_check rt b service n =
     (if service \<noteq> ''cntp'' then Returns CheckFalse
      else Returns (CNTPService_check rt (check_pages b n)))"

definition TokenPlugin :: "runtime \<Rightarrow> browser \<Rightarrow> plugin" where
  "TokenPlugin rt b =
     \<lparr>plugin_login = TokenPlugin_login b, plugin_check = TokenPlugin_check rt b\<rparr>"

section \<open>worker.js: the probe of one proxy\<close>

record probe_result =
  r_proxy :: string
  r_success :: "string list"
  r_fail :: "string list"

text \<open>The answer of the request library: an error (time-out included) or a status code.\<close>

datatype http_reply = RequestError | Response nat

definition testProxy :: "string \<Rightarrow> http_reply \<Rightarrow> probe_result" where
  "testProxy proxyUrl reply =
     (let result = \<lparr>r_proxy = proxyUrl, r_success = [], r_fail = []\<rparr> in
      case reply of
        RequestError \<Rightarrow> result\<lparr>r_fail := r_fail result @ [''cntp'']\<rparr>
      | Response statusCode \<Rightarrow>
          if statusCode \<noteq> 200 then result\<lparr>r_fail := r_fail result @ [''cntp'']\<rparr>
          else result\<lparr>r_success := r_success result @ [''cntp'']\<rparr>)"

text \<open>
  The message handler of the worker: one probe per proxy of the chunk, the results in the
  order of the chunk. The k-th probe of the worker gets the reply \<^verbatim>\<open>replies k\<close>.
\<close>

definition worker_on_message :: "(nat \<Rightarrow> http_reply) \<Rightarrow> string list \<Rightarrow> probe_result list" where
  "worker_on_message replies proxies =
     map (\<lambda>(k, proxy). testProxy proxy (replies k)) (enumerate 0 proxies)"

section \<open>main.js of the proxy handler: the validator pool\<close>

definition PROXY_CHUNK_SIZE :: nat where
  "PROXY_CHUNK_SIZE = 10"

text \<open>
  The environment of the pool: the cleaned lines of the input file (or the read throws),
  the reply to the k-th probe of the worker of chunk i, whether that worker emits an
  error instead of its results, and whether the n-th store statement of the write step
  succeeds (0 opens the store, 1 is the DELETE, the INSERTs follow).
\<close>

record pool_env =
  read_proxies :: "string list outcome"
  probe :: "nat \<Rightarrow> nat \<Rightarrow> http_reply"
  worker_error :: "nat \<Rightarrow> bool"
  pool_store_ok :: "nat \<Rightarrow> bool"

text \<open>
  What a run of the pool leaves: the table \<^verbatim>\<open>filtered_proxies\<close> (the tag lists stand for
  their JSON text), the chunks posted to workers, one worker each, and the value of
  \<^verbatim>\<open>combinedResults\<close> once all workers have answered.
\<close>

record pool_state =
  filtered_proxies :: "probe_result list"
  posted :: "string list list"
  combinedResults :: "probe_result list option"

text \<open>\<^verbatim>\<open>arr.slice(a, b)\<close> for \<^verbatim>\<open>0 <= a <= b\<close>.\<close>

definition slice :: "'a list \<Rightarrow> nat \<Rightarrow> nat \<Rightarrow> 'a list" where
  "slice arr a b = take (b - a) (drop a arr)"

text \<open>
  \<^verbatim>\<open>chunkArray\<close>: the loop \<^verbatim>\<open>for (let i = 0; i < arr.length; i += chunkSize)\<close>. With
  chunk size 0 on a non-empty array it never ends, which is the value \<^verbatim>\<open>None\<close>.
\<close>

partial_function (option) chunk_loop ::
    "'a list \<Rightarrow> nat \<Rightarrow> nat \<Rightarrow> 'a list list \<Rightarrow> 'a list list option" where
  "chunk_loop arr chunkSize i chunks =
     (if i < length arr
      then chunk_loop arr chunkSize (i + chunkSize) (chunks @ [slice arr i (i + chunkSize)])
      else Some chunks)"

definition chunkArray :: "'a list \<Rightarrow> nat \<Rightarrow> 'a list list option" where
  "chunkArray arr chunkSize = chunk_loop arr chunkSize 0 []"

text \<open>
  \<^verbatim>\<open>processWithWorker\<close>: the promise resolves with the worker's message or rejects with
  its error. A worker that does neither is not modelled.
\<close>

definition processWithWorker :: "pool_env \<Rightarrow> nat \<Rightarrow> string list \<Rightarrow> probe_result list outcome" where
  "processWithWorker e index proxies =
     (if worker_error e index then Throws
      else Returns (worker_on_message (probe e index) proxies))"

text \<open>\<^verbatim>\<open>Promise.all\<close>: the values in the order of the promises, or a rejection when one rejects.\<close>

fun promise_all :: "'a outcome list \<Rightarrow> 'a list outcome" where
  "promise_all [] = Returns []"
| "promise_all (Throws # ps) = Throws"
| "promise_all (Returns x # ps) =
     (case promise_all ps of Throws \<Rightarrow> Throws | Returns xs \<Rightarrow> Returns (x # xs))"

text \<open>\<^verbatim>\<open>INSERT OR REPLACE\<close> on a table whose primary key is the proxy.\<close>

definition insert_or_replace :: "probe_result \<Rightarrow> probe_result list \<Rightarrow> probe_result list" where
  "insert_or_replace row rows = filter (\<lambda>r. r_proxy r \<noteq> r_proxy row) rows @ [row]"

text \<open>The loop of step 7; a statement that fails throws out of the loop.\<close>

fun insert_results :: "pool_env \<Rightarrow> nat \<Rightarrow> probe_result list \<Rightarrow> probe_result list \<Rightarrow> probe_result list" where
  "insert_results e n [] rows = rows"
| "insert_results e n (result # rest) rows =
     (if pool_store_ok e n then insert_results e (n + 1) rest (insert_or_replace result rows)
      else rows)"

text \<open>
  \<^verbatim>\<open>processProxies\<close>, from the cleaned list of step 1 on. Every throw inside is caught and
  logged by the function's own \<^verbatim>\<open>catch\<close>. \<^verbatim>\<open>None\<close>: the function does not return.
  Closing the store at the end is left out.
\<close>

definition processProxies :: "pool_env \<Rightarrow> pool_state \<Rightarrow> pool_state option" where
  "processProxies e w =
     (case read_proxies e of
        Throws \<Rightarrow> Some w
      | Returns proxyList \<Rightarrow>
          (case chunkArray proxyList PROXY_CHUNK_SIZE of
             None \<Rightarrow> None
           | Some proxyChunks \<Rightarrow>
               (let w1 = w\<lparr>posted := posted w @ proxyChunks\<rparr> in
                case promise_all (map (\<lambda>(index, chunk). processWithWorker e index chunk)
                                      (enumerate 0 proxyChunks)) of
                  Throws \<Rightarrow> Some w1
                | Returns allResults \<Rightarrow>
                    (let combined = concat allResults;
                         w2 = w1\<lparr>combinedResults := Some combined\<rparr> in
                     if \<not> pool_store_ok e 0 then Some w2
                     else if \<not> pool_store_ok e 1 then Some w2
                     else Some (w2\<lparr>filtered_proxies := insert_results e 2 combined []\<rparr>)))))"

section \<open>assign\_proxy.js: the assignment stage\<close>

text \<open>A key as \<^verbatim>\<open>readKeysFromFile\<close> yields it, and a key with the proxies assigned to it
  (each proxy stands for the object \<^verbatim>\<open>{ proxy }\<close>).\<close>

record key_entry =
  k_key :: string

record key_with_proxies =
  a_key :: string
  a_proxies :: "string list"

text \<open>
  The \<^verbatim>\<open>keys.map\<close> of \<^verbatim>\<open>assignProxiesToKeys\<close> with the list it consumes:
  \<^verbatim>\<open>availableProxies.splice(0, 1)\<close> takes the first proxy off the list, if there is one.
\<close>

fun assign_keys :: "key_entry list \<Rightarrow> probe_result list \<Rightarrow> key_with_proxies list" where
  "assign_keys [] availableProxies = []"
| "assign_keys (k # keys) availableProxies =
     (let assignedProxies = take 1 availableProxies in
      \<lparr>a_key = k_key k, a_proxies = map r_proxy assignedProxies\<rparr>
        # assign_keys keys (drop 1 availableProxies))"

definition assignProxiesToKeys :: "key_entry list \<Rightarrow> probe_result list \<Rightarrow> key_with_proxies list" where
  "assignProxiesToKeys keys proxies = assign_keys keys proxies"

section \<open>automationManager.js: the scheduler\<close>

text \<open>
  The environment of \<^verbatim>\<open>run\<close>: the rows of the join of keys and proxies (or the query
  throws), how the promise of the handler started k-th, for its pair, settles, and how
  long after its delay the k-th timer fires. A timer never fires before its delay; the
  time the loop itself takes from one \<^verbatim>\<open>await\<close> to the next counts as lateness. The
  units run while the loop sleeps; what they do to the store is not traced here.
\<close>

record sched_env =
  db_all :: "key_proxy list outcome"
  unit_settles :: "nat \<Rightarrow> key_proxy \<Rightarrow> unit outcome"
  timer_late :: "nat \<Rightarrow> nat"

text \<open>The clock in milliseconds, the units started so far with their start times, in
  order, and the number of timers set.\<close>

record sched =
  now :: nat
  started :: "(nat \<times> key_proxy) list"
  timers :: nat

text \<open>\<^verbatim>\<open>loadKeyProxyData\<close>: the rows of the join; a store error is caught and gives no pairs.\<close>

definition loadKeyProxyData :: "sched_env \<Rightarrow> key_proxy list" where
  "loadKeyProxyData e = (case db_all e of Throws \<Rightarrow> [] | Returns rows \<Rightarrow> rows)"

text \<open>\<^verbatim>\<open>await this.sleep(ms)\<close>: the loop goes on when the timer has fired.\<close>

definition sleep :: "sched_env \<Rightarrow> nat \<Rightarrow> sched \<Rightarrow> sched" where
  "sleep e ms s = s\<lparr>now := now s + ms + timer_late e (timers s), timers := timers s + 1\<rparr>"

text \<open>
  The loop of \<^verbatim>\<open>run\<close>: start the unit of the pair, push its promise with the
  \<^verbatim>\<open>catch\<close> that logs a rejection (so the pushed promise resolves either way), then sleep
  \<^verbatim>\<open>STAGGER_DELAY\<close>.
\<close>

fun run_loop ::
    "config \<Rightarrow> sched_env \<Rightarrow> key_proxy list \<Rightarrow> unit outcome list \<Rightarrow> sched
       \<Rightarrow> unit outcome list \<times> sched" where
  "run_loop cfg e [] taskPromises s = (taskPromises, s)"
| "run_loop cfg e (kp # rest) taskPromises s =
     (let s1 = s\<lparr>started := started s @ [(now s, kp)]\<rparr>;
          promise = (case unit_settles e (length taskPromises) kp of
                       Throws \<Rightarrow> Returns ()
                     | Returns u \<Rightarrow> Returns u);
          s2 = sleep e (STAGGER_DELAY cfg) s1
      in run_loop cfg e rest (taskPromises @ [promise]) s2)"

text \<open>
  \<^verbatim>\<open>run\<close>: load the pairs, run the loop, await all promises. What it logs at the end: that
  all units completed, or a system error when the join of the promises rejects.
\<close>

datatype run_log = AllCompleted | SystemError

definition run :: "config \<Rightarrow> sched_env \<Rightarrow> sched \<Rightarrow> run_log \<times> sched" where
  "run cfg e s =
     (case run_loop cfg e (loadKeyProxyData e) [] s of
        (taskPromises, s1) \<Rightarrow>
          (case promise_all taskPromises of
             Returns results \<Rightarrow> (AllCompleted, s1)
           | Throws \<Rightarrow> (SystemError, s1)))"

section \<open>Example inputs\<close>

text \<open>A store that answers, a browser session that starts, and one pair with no task row yet.
  No text of the examples is a numeric literal, so the column keeps the texts bound to it.\<close>

definition ex_env :: env where
  "ex_env = \<lparr>store_ok = (\<lambda>n. True), createSession = (\<lambda>profilePath proxy. Returns 7),
     tabReset = (\<lambda>driver. Returns ()), rmSync_ok = (\<lambda>profilePath. True), writeFile_ok = True,
     now_iso = ''2025-01-01T00:00:00.000Z'', cwd = ''/app'',
     column_affinity = (\<lambda>text. PointText text)\<rparr>"

definition ex_pair :: key_proxy where
  "ex_pair = \<lparr>kp_id = 1, kp_the_key = ''k1'', kp_proxy = ''10.0.0.1:80''\<rparr>"

definition ex_world :: world where
  "ex_world = \<lparr>task_monitoring = [], fail_tasks_file = Absent, removed_profiles = [],
     store_ops = 0, session_calls = 0, login_calls = 0, check_calls = 0\<rparr>"

text \<open>The same world with the pair's task already failed at an earlier run.\<close>

definition ex_world_done :: world where
  "ex_world_done = ex_world\<lparr>task_monitoring :=
     [\<lparr>t_id = 1, t_key_id = 1, t_proxy = ''10.0.0.1:80'', t_service = ''cntp'',
       t_state = ''failed'', t_retry_count = 0, t_point = PointNumber 0\<rparr>]\<rparr>"

text \<open>Capabilities: a login that never succeeds; a login that succeeds at its second call,
  with a check that answers 37.\<close>

definition ex_plugin_never :: plugin where
  "ex_plugin_never = \<lparr>plugin_login = (\<lambda>service n. Returns False),
     plugin_check = (\<lambda>service n. Returns (CheckPoint (PointNumber 5)))\<rparr>"

definition ex_plugin_second :: plugin where
  "ex_plugin_second = \<lparr>plugin_login = (\<lambda>service n. Returns (n = 1)),
     plugin_check = (\<lambda>service n. Returns (CheckPoint (PointNumber 37)))\<rparr>"

text \<open>A browser that is logged in already and whose value element is never found.\<close>

definition ex_browser :: browser where
  "ex_browser = \<lparr>
     login_pages = (\<lambda>n. \<lparr>lp_get_login_ok = True, lp_logged_in = True, lp_enterText_ok = True,
       lp_click_ok = True, lp_sleep_ok = True, lp_get_extension_ok = True, lp_confirm_ok = True\<rparr>),
     check_pages = (\<lambda>n. \<lparr>cp_get_ok = True, cp_sleep_ok = True, cp_element_text = None\<rparr>)\<rparr>"

text \<open>An environment whose session creation throws.\<close>

definition ex_env_crash :: env where
  "ex_env_crash = ex_env\<lparr>createSession := (\<lambda>profilePath proxy. Throws)\<rparr>"

text \<open>A store whose second statement, the read of the state, fails, and a world where the
  pair's task succeeded with 12 points at an earlier run.\<close>

definition ex_env_unreadable :: env where
  "ex_env_unreadable = ex_env\<lparr>store_ok := (\<lambda>n. n \<noteq> 1)\<rparr>"

definition ex_world_success :: world where
  "ex_world_success = ex_world\<lparr>task_monitoring :=
     [\<lparr>t_id = 1, t_key_id = 1, t_proxy = ''10.0.0.1:80'', t_service = ''cntp'',
       t_state = ''success'', t_retry_count = 0, t_point = PointNumber 12\<rparr>]\<rparr>"


text \<open>The answers of \<^verbatim>\<open>parseInt\<close> on the texts of the examples.\<close>

definition ex_runtime :: runtime where
  "ex_runtime = \<lparr>js_parseInt = (\<lambda>text. if text = ''37'' then Some 37 else None)\<rparr>"





text \<open>Inputs of the pool: 23 proxies, workers that all answer, and a worker of the second
  chunk that fails; a table with one row of an earlier run.\<close>

definition ex_proxies :: "string list" where
  "ex_proxies = [''a'', ''b'', ''c'', ''d'', ''e'', ''f'', ''g'', ''h'', ''i'', ''j'',
                 ''k'', ''l'', ''m'', ''n'', ''o'', ''p'', ''q'', ''r'', ''s'', ''t'',
                 ''u'', ''v'', ''w'']"

definition ex_pool_env :: pool_env where
  "ex_pool_env = \<lparr>read_proxies = Returns ex_proxies,
     probe = (\<lambda>i k. if k = 0 then Response 200 else RequestError),
     worker_error = (\<lambda>i. False), pool_store_ok = (\<lambda>n. True)\<rparr>"

definition ex_pool_env_crash :: pool_env where
  "ex_pool_env_crash = ex_pool_env\<lparr>worker_error := (\<lambda>i. i = 1)\<rparr>"

definition ex_pool :: pool_state where
  "ex_pool = \<lparr>filtered_proxies = [\<lparr>r_proxy = ''old'', r_success = [''cntp''], r_fail = []\<rparr>],
     posted = [], combinedResults = None\<rparr>"

text \<open>Inputs of the assignment stage: five keys and three validated proxies, one of which
  failed its probe.\<close>

definition ex_keys :: "key_entry list" where
  "ex_keys = [\<lparr>k_key = ''key1''\<rparr>, \<lparr>k_key = ''key2''\<rparr>, \<lparr>k_key = ''key3''\<rparr>,
              \<lparr>k_key = ''key4''\<rparr>, \<lparr>k_key = ''key5''\<rparr>]"

definition ex_validated :: "probe_result list" where
  "ex_validated = [\<lparr>r_proxy = ''a'', r_success = [''cntp''], r_fail = []\<rparr>,
                   \<lparr>r_proxy = ''b'', r_success = [], r_fail = [''cntp'']\<rparr>,
                   \<lparr>r_proxy = ''c'', r_success = [''cntp''], r_fail = []\<rparr>]"

section \<open>Properties of the orchestrator\<close>

declare login_loop.simps [simp del]

subsection \<open>The login loop\<close>

text \<open>When no call returns true, the loop makes every attempt of the budget.\<close>

lemma login_loop_never_true:
  "\<forall>j < MAX_LOGIN_RETRIES cfg - a. plugin_login pl ''cntp'' (login_calls w + j) \<noteq> Returns True \<Longrightarrow>
     login_loop cfg pl a w = (False, w\<lparr>login_calls := login_calls w + (MAX_LOGIN_RETRIES cfg - a)\<rparr>)"
proof (induction cfg pl a w rule: login_loop.induct)
  case (1 cfg pl a w)
  show ?case
  proof (cases "a < MAX_LOGIN_RETRIES cfg")
    case False
    then show ?thesis by (simp add: login_loop.simps [of cfg pl a w])
  next
    case True
    let ?w1 = "w\<lparr>login_calls := login_calls w + 1\<rparr>"
    from True "1.prems" have no: "plugin_login pl ''cntp'' (login_calls w) \<noteq> Returns True"
      by (metis add.right_neutral zero_less_diff)
    have later: "\<forall>j < MAX_LOGIN_RETRIES cfg - (a + 1).
        plugin_login pl ''cntp'' (login_calls ?w1 + j) \<noteq> Returns True"
    proof (intro allI impI)
      fix j assume "j < MAX_LOGIN_RETRIES cfg - (a + 1)"
      then have "Suc j < MAX_LOGIN_RETRIES cfg - a" by simp
      with "1.prems" have "plugin_login pl ''cntp'' (login_calls w + Suc j) \<noteq> Returns True"
        by blast
      then show "plugin_login pl ''cntp'' (login_calls ?w1 + j) \<noteq> Returns True" by simp
    qed
    from no have cases: "plugin_login pl ''cntp'' (login_calls w) = Returns False \<or>
          plugin_login pl ''cntp'' (login_calls w) = Throws"
      by (cases "plugin_login pl ''cntp'' (login_calls w)") auto
    then have rec: "login_loop cfg pl (a + 1) ?w1 =
        (False, ?w1\<lparr>login_calls := login_calls ?w1 + (MAX_LOGIN_RETRIES cfg - (a + 1))\<rparr>)"
      using "1.IH"(1)[OF True refl refl _ _ later] "1.IH"(2)[OF True refl refl _ later]
      by auto
    have "login_loop cfg pl a w = login_loop cfg pl (a + 1) ?w1"
      using True cases by (auto simp add: login_loop.simps [of cfg pl a w])
    with rec True show ?thesis by simp
  qed
qed

text \<open>The loop succeeds at the first call that returns true, when that is within the budget.\<close>

lemma login_loop_first_true:
  "k < MAX_LOGIN_RETRIES cfg - a \<Longrightarrow>
   plugin_login pl ''cntp'' (login_calls w + k) = Returns True \<Longrightarrow>
   \<forall>j < k. plugin_login pl ''cntp'' (login_calls w + j) \<noteq> Returns True \<Longrightarrow>
     login_loop cfg pl a w = (True, w\<lparr>login_calls := login_calls w + (k + 1)\<rparr>)"
proof (induction k arbitrary: a w)
  case 0
  then show ?case by (simp add: login_loop.simps [of cfg pl a w])
next
  case (Suc k)
  let ?w1 = "w\<lparr>login_calls := login_calls w + 1\<rparr>"
  from Suc.prems have lt: "a < MAX_LOGIN_RETRIES cfg" by simp
  from Suc.prems have no: "plugin_login pl ''cntp'' (login_calls w) \<noteq> Returns True"
    by (metis add.right_neutral zero_less_Suc)
  then have cases: "plugin_login pl ''cntp'' (login_calls w) = Returns False \<or>
          plugin_login pl ''cntp'' (login_calls w) = Throws"
      by (cases "plugin_login pl ''cntp'' (login_calls w)") auto
  have step: "login_loop cfg pl a w = login_loop cfg pl (a + 1) ?w1"
    using lt cases by (auto simp add: login_loop.simps [of cfg pl a w])
  have "login_loop cfg pl (a + 1) ?w1 = (True, ?w1\<lparr>login_calls := login_calls ?w1 + (k + 1)\<rparr>)"
  proof (rule Suc.IH)
    show "k < MAX_LOGIN_RETRIES cfg - (a + 1)" using Suc.prems by simp
    show "plugin_login pl ''cntp'' (login_calls ?w1 + k) = Returns True" using Suc.prems by simp
    show "\<forall>j<k. plugin_login pl ''cntp'' (login_calls ?w1 + j) \<noteq> Returns True"
    proof (intro allI impI)
      fix j assume "j < k"
      then have "Suc j < Suc k" by simp
      with Suc.prems(3) have "plugin_login pl ''cntp'' (login_calls w + Suc j) \<noteq> Returns True"
        by blast
      then show "plugin_login pl ''cntp'' (login_calls ?w1 + j) \<noteq> Returns True" by simp
    qed
  qed
  with step show ?case by simp
qed

text \<open>The login loop changes nothing but the count of login calls.\<close>

lemma login_loop_frame:
  "\<exists>n. snd (login_loop cfg pl a w) = w\<lparr>login_calls := login_calls w + n\<rparr>"
proof (induction cfg pl a w rule: login_loop.induct)
  case (1 cfg pl a w)
  let ?w1 = "w\<lparr>login_calls := login_calls w + 1\<rparr>"
  show ?case
  proof (cases "a < MAX_LOGIN_RETRIES cfg")
    case False
    then have "snd (login_loop cfg pl a w) = w\<lparr>login_calls := login_calls w + 0\<rparr>"
      by (simp add: login_loop.simps [of cfg pl a w])
    then show ?thesis by blast
  next
    case True
    show ?thesis
    proof (cases "plugin_login pl ''cntp'' (login_calls w) = Returns True")
      case yes: True
      with True have "snd (login_loop cfg pl a w) = w\<lparr>login_calls := login_calls w + 1\<rparr>"
        by (simp add: login_loop.simps [of cfg pl a w])
      then show ?thesis by blast
    next
      case no: False
      then have cases: "plugin_login pl ''cntp'' (login_calls w) = Returns False \<or>
          plugin_login pl ''cntp'' (login_calls w) = Throws"
        by (cases "plugin_login pl ''cntp'' (login_calls w)") auto
      then have step: "login_loop cfg pl a w = login_loop cfg pl (a + 1) ?w1"
        using True by (auto simp add: login_loop.simps [of cfg pl a w])
      from cases obtain n where
        "snd (login_loop cfg pl (a + 1) ?w1) = ?w1\<lparr>login_calls := login_calls ?w1 + n\<rparr>"
        using "1.IH"(1)[OF True refl refl] "1.IH"(2)[OF True refl refl] by auto
      with step have "snd (login_loop cfg pl a w) = w\<lparr>login_calls := login_calls w + (n + 1)\<rparr>"
        by simp
      then show ?thesis by blast
    qed
  qed
qed

lemma first_true_call:
  fixes c m :: nat
  assumes "\<exists>k < m. f (c + k) = Returns True"
  obtains k where "k < m" "f (c + k) = Returns True" "\<forall>j < k. f (c + j) \<noteq> Returns True"
proof -
  define k where "k = (LEAST k. f (c + k) = Returns True)"
  from assms obtain k0 where k0: "k0 < m" "f (c + k0) = Returns True" by blast
  have 1: "f (c + k) = Returns True"
    unfolding k_def using k0(2) by (rule LeastI [where P = "\<lambda>k. f (c + k) = Returns True"])
  have "k \<le> k0"
    unfolding k_def using k0(2) by (rule Least_le [where P = "\<lambda>k. f (c + k) = Returns True"])
  with k0(1) have 2: "k < m" by simp
  have 3: "\<forall>j < k. f (c + j) \<noteq> Returns True"
    unfolding k_def using not_less_Least [where P = "\<lambda>k. f (c + k) = Returns True"] by blast
  from 2 1 3 show ?thesis by (rule that)
qed

subsection \<open>The store and the failure log\<close>

lemma find_map_update:
  "find (is_cntp_task k p)
     (map (\<lambda>r. if is_cntp_task k p r then r\<lparr>t_state := s, t_point := v\<rparr> else r) rows) =
   map_option (\<lambda>r. r\<lparr>t_state := s, t_point := v\<rparr>) (find (is_cntp_task k p) rows)"
  by (induction rows) (auto simp: is_cntp_task_def)

lemma find_append_none: "find P xs = None \<Longrightarrow> find P (xs @ ys) = find P ys"
  by (induction xs) (auto split: if_splits)

lemma store_step_frame [simp]:
  "task_monitoring (store_step w) = task_monitoring w"
  "login_calls (store_step w) = login_calls w"
  "check_calls (store_step w) = check_calls w"
  "session_calls (store_step w) = session_calls w"
  "fail_tasks_file (store_step w) = fail_tasks_file w"
  "removed_profiles (store_step w) = removed_profiles w"
  by (simp_all add: store_step_def)

lemma store_point_number [simp]: "store_point e (PointNumber n) = PointNumber n"
  by (simp add: store_point_def)

lemma init_frame [simp]:
  "login_calls (initializeCNTPTask e k p w) = login_calls w"
  "check_calls (initializeCNTPTask e k p w) = check_calls w"
  "session_calls (initializeCNTPTask e k p w) = session_calls w"
  "fail_tasks_file (initializeCNTPTask e k p w) = fail_tasks_file w"
  "removed_profiles (initializeCNTPTask e k p w) = removed_profiles w"
  by (simp_all add: initializeCNTPTask_def store_step_def Let_def split: option.splits)

lemma update_frame [simp]:
  "login_calls (updateCNTPTaskState e k p s v w) = login_calls w"
  "check_calls (updateCNTPTaskState e k p s v w) = check_calls w"
  "session_calls (updateCNTPTaskState e k p s v w) = session_calls w"
  "fail_tasks_file (updateCNTPTaskState e k p s v w) = fail_tasks_file w"
  "removed_profiles (updateCNTPTaskState e k p s v w) = removed_profiles w"
  by (simp_all add: updateCNTPTaskState_def store_step_def)

lemma init_existing:
  "select_task (task_monitoring w) k p = Some r \<Longrightarrow>
     task_monitoring (initializeCNTPTask e k p w) = task_monitoring w"
  by (simp add: initializeCNTPTask_def store_step_def)

lemma init_keeps_existing:
  "task_state w k p \<noteq> None \<Longrightarrow> task_monitoring (initializeCNTPTask e k p w) = task_monitoring w"
  by (auto simp: task_state_def initializeCNTPTask_def store_step_def)

lemma init_state:
  assumes "\<forall>n. store_ok e n"
  shows "task_state (initializeCNTPTask e k p w) k p =
           (case task_state w k p of None \<Rightarrow> Some ''pending'' | Some s \<Rightarrow> Some s)"
  using assms
  by (auto simp: initializeCNTPTask_def store_step_def task_state_def select_task_def Let_def
        is_cntp_task_def find_append_none split: option.splits)

lemma init_point:
  assumes "\<forall>n. store_ok e n"
  shows "task_point (initializeCNTPTask e k p w) k p =
           (case task_point w k p of None \<Rightarrow> Some (PointNumber 0) | Some s \<Rightarrow> Some s)"
  using assms
  by (auto simp: initializeCNTPTask_def store_step_def task_point_def select_task_def Let_def
        is_cntp_task_def find_append_none split: option.splits)

text \<open>A task that is not terminal goes to the attempt, whatever the store answers.\<close>

lemma init_not_terminal:
  "\<not> terminal (task_state w k p) \<Longrightarrow> \<not> terminal (task_state (initializeCNTPTask e k p w) k p)"
  by (auto simp: initializeCNTPTask_def store_step_def task_state_def select_task_def Let_def
        terminal_def is_cntp_task_def find_append_none split: option.splits)

lemma update_state:
  assumes "store_ok e (store_ops w)" "task_state w k p = Some s0"
  shows "task_state (updateCNTPTaskState e k p s v w) k p = Some s"
    and "task_point (updateCNTPTaskState e k p s v w) k p = Some (store_point e v)"
  using assms
  by (auto simp: updateCNTPTaskState_def store_step_def task_state_def task_point_def
        select_task_def find_map_update)

lemma get_state:
  "store_ok e (store_ops w) \<Longrightarrow>
     getCNTPTaskState e k p w = (task_state w k p, store_step w)"
  by (simp add: getCNTPTaskState_def task_state_def)

lemma task_state_cong:
  "task_monitoring w = task_monitoring w' \<Longrightarrow> task_state w k p = task_state w' k p"
  by (simp add: task_state_def)

lemma logFailedTask_ok:
  "fail_tasks_file w \<noteq> Malformed \<Longrightarrow> writeFile_ok e \<Longrightarrow>
     logFailedTask e key proxy w =
       (Returns (), w\<lparr>fail_tasks_file := JsonArray (log_entries (fail_tasks_file w) @
          [\<lparr>fe_key = key, fe_proxy = proxy, fe_service = ''cntp'', fe_timestamp = now_iso e\<rparr>])\<rparr>)"
  by (simp add: logFailedTask_def log_entries_def split: log_file.splits)

lemma logFailedTask_frame [simp]:
  "session_calls (snd (logFailedTask e key proxy w)) = session_calls w"
  "task_monitoring (snd (logFailedTask e key proxy w)) = task_monitoring w"
  by (simp_all add: logFailedTask_def Let_def split: log_file.splits)

lemma handleCleanup_frame [simp]:
  "session_calls (handleCleanup cfg e pp w) = session_calls w"
  "task_monitoring (handleCleanup cfg e pp w) = task_monitoring w"
  "fail_tasks_file (handleCleanup cfg e pp w) = fail_tasks_file w"
  "login_calls (handleCleanup cfg e pp w) = login_calls w"
  "check_calls (handleCleanup cfg e pp w) = check_calls w"
  by (simp_all add: handleCleanup_def)

subsection \<open>The handler\<close>

text \<open>The handler before and after the skip.\<close>

lemma handle_terminal:
  assumes "store_ok e (store_ops w + 1)"
    and "terminal (task_state w (kp_id kp) (kp_proxy kp))"
  shows "handleKeyProxyTask cfg e pl kp w = (Returns (), store_step (store_step w))"
proof -
  from assms(2) obtain r where r: "select_task (task_monitoring w) (kp_id kp) (kp_proxy kp) = Some r"
    by (auto simp: terminal_def task_state_def)
  then have init: "initializeCNTPTask e (kp_id kp) (kp_proxy kp) w = store_step w"
    by (simp add: initializeCNTPTask_def)
  have "getCNTPTaskState e (kp_id kp) (kp_proxy kp) (store_step w) =
      (task_state w (kp_id kp) (kp_proxy kp), store_step (store_step w))"
    using assms(1) by (simp add: getCNTPTaskState_def task_state_def store_step_def)
  with init assms(2) show ?thesis
    by (simp add: handleKeyProxyTask_def terminal_def)
qed

lemma handle_nonterminal:
  assumes "\<not> terminal (task_state w (kp_id kp) (kp_proxy kp))"
  shows "handleKeyProxyTask cfg e pl kp w =
     (case attempt cfg e pl kp (getProfilePath e (kp_the_key kp) (kp_proxy kp))
             (store_step (initializeCNTPTask e (kp_id kp) (kp_proxy kp) w)) of
        (Throws, driver, w3) \<Rightarrow>
          (tabReset e driver,
           handleCleanup cfg e (getProfilePath e (kp_the_key kp) (kp_proxy kp)) w3)
      | (Returns u, driver, w3) \<Rightarrow> (tabReset e driver, w3))"
proof -
  let ?w1 = "initializeCNTPTask e (kp_id kp) (kp_proxy kp) w"
  have nt: "\<not> terminal (task_state ?w1 (kp_id kp) (kp_proxy kp))"
    using assms by (rule init_not_terminal)
  have "getCNTPTaskState e (kp_id kp) (kp_proxy kp) ?w1 = (None, store_step ?w1) \<or>
        getCNTPTaskState e (kp_id kp) (kp_proxy kp) ?w1 =
          (task_state ?w1 (kp_id kp) (kp_proxy kp), store_step ?w1)"
    by (simp add: getCNTPTaskState_def task_state_def)
  then show ?thesis
    using nt by (auto simp: handleKeyProxyTask_def terminal_def Let_def)
qed

lemma attempt_session_throws:
  "createSession e pp (kp_proxy kp) = Throws \<Longrightarrow>
     attempt cfg e pl kp pp w = (Throws, None, w\<lparr>session_calls := session_calls w + 1\<rparr>)"
  by (simp add: attempt_def)

text \<open>The attempt when the login succeeds at its call number k + 1: the check decides.\<close>

lemma attempt_login_ok:
  assumes "createSession e pp (kp_proxy kp) = Returns d"
    and "k < MAX_LOGIN_RETRIES cfg"
    and "plugin_login pl ''cntp'' (login_calls w + k) = Returns True"
    and "\<forall>j < k. plugin_login pl ''cntp'' (login_calls w + j) \<noteq> Returns True"
  shows "attempt cfg e pl kp pp w =
     (let w2 = w\<lparr>session_calls := session_calls w + 1, login_calls := login_calls w + (k + 1),
                  check_calls := check_calls w + 1\<rparr> in
      case plugin_check pl ''cntp'' (check_calls w) of
        Throws \<Rightarrow> (Throws, Some d, w2)
      | Returns CheckFalse \<Rightarrow>
          (case logFailedTask e (kp_the_key kp) (kp_proxy kp)
                  (updateCNTPTaskState e (kp_id kp) (kp_proxy kp) ''failed'' (PointNumber 0) w2) of
             (r, w4) \<Rightarrow> (r, Some d, w4))
      | Returns (CheckPoint checkResult) \<Rightarrow>
          (Returns (), Some d,
           updateCNTPTaskState e (kp_id kp) (kp_proxy kp) ''success'' checkResult w2))"
proof -
  let ?w0 = "w\<lparr>session_calls := session_calls w + 1\<rparr>"
  have "login_loop cfg pl 0 ?w0 = (True, ?w0\<lparr>login_calls := login_calls ?w0 + (k + 1)\<rparr>)"
    by (rule login_loop_first_true) (use assms in simp_all)
  then show ?thesis
    using assms(1)
    by (simp add: attempt_def Let_def split: outcome.splits check_value.splits)
qed

lemma attempt_session_calls:
  "session_calls (snd (snd (attempt cfg e pl kp pp w))) = session_calls w + 1"
proof -
  let ?w0 = "w\<lparr>session_calls := session_calls w + 1\<rparr>"
  obtain n where n: "snd (login_loop cfg pl 0 ?w0) = ?w0\<lparr>login_calls := login_calls ?w0 + n\<rparr>"
    using login_loop_frame by blast
  obtain b w1 where l: "login_loop cfg pl 0 ?w0 = (b, w1)" by (cases "login_loop cfg pl 0 ?w0")
  with n have w1: "session_calls w1 = session_calls w + 1" by simp
  show ?thesis
    using l w1
    by (simp add: attempt_def Let_def case_prod_beta
          split: outcome.splits check_value.splits bool.splits)
qed

text \<open>A task that is not terminal is attempted: the handler asks for a session.\<close>

lemma nonterminal_is_attempted:
  assumes "\<not> terminal (task_state w (kp_id kp) (kp_proxy kp))"
  shows "session_calls (snd (handleKeyProxyTask cfg e pl kp w)) = session_calls w + 1"
proof -
  let ?pp = "getProfilePath e (kp_the_key kp) (kp_proxy kp)"
  let ?w2 = "store_step (initializeCNTPTask e (kp_id kp) (kp_proxy kp) w)"
  have "session_calls (snd (snd (attempt cfg e pl kp ?pp ?w2))) = session_calls w + 1"
    by (simp add: attempt_session_calls)
  then show ?thesis
    unfolding handle_nonterminal [OF assms]
    by (auto split: prod.splits outcome.splits)
qed

text \<open>The handler on a pair that is not terminal, when the login succeeds at call k + 1
  and the check answers a number.\<close>

lemma handle_success:
  assumes store: "\<forall>n. store_ok e n"
    and nonterm: "\<not> terminal (task_state w (kp_id kp) (kp_proxy kp))"
    and session: "createSession e (getProfilePath e (kp_the_key kp) (kp_proxy kp)) (kp_proxy kp) = Returns d"
    and k: "k < MAX_LOGIN_RETRIES cfg" "plugin_login pl ''cntp'' (login_calls w + k) = Returns True"
       "\<forall>j < k. plugin_login pl ''cntp'' (login_calls w + j) \<noteq> Returns True"
    and check: "plugin_check pl ''cntp'' (check_calls w) = Returns (CheckPoint v)"
  shows "let w' = snd (handleKeyProxyTask cfg e pl kp w) in
           task_state w' (kp_id kp) (kp_proxy kp) = Some ''success'' \<and>
           task_point w' (kp_id kp) (kp_proxy kp) = Some (store_point e v) \<and>
           login_calls w' = login_calls w + (k + 1) \<and>
           check_calls w' = check_calls w + 1 \<and>
           fail_tasks_file w' = fail_tasks_file w"
proof -
  let ?k = "kp_id kp" and ?p = "kp_proxy kp"
  let ?pp = "getProfilePath e (kp_the_key kp) ?p"
  define w2 where "w2 = store_step (initializeCNTPTask e ?k ?p w)"
  define w3 where "w3 = w2\<lparr>session_calls := session_calls w2 + 1,
      login_calls := login_calls w2 + (k + 1), check_calls := check_calls w2 + 1\<rparr>"
  define w4 where "w4 = updateCNTPTaskState e ?k ?p ''success'' v w3"
  have calls: "login_calls w2 = login_calls w" "check_calls w2 = check_calls w"
    "fail_tasks_file w2 = fail_tasks_file w"
    by (simp_all add: w2_def)
  obtain s where s: "task_state w2 ?k ?p = Some s"
    using init_state [OF store, of ?k ?p w]
    by (auto simp: w2_def task_state_def split: option.splits)
  then have s3: "task_state w3 ?k ?p = Some s"
    by (simp add: task_state_def w3_def)
  have att: "attempt cfg e pl kp ?pp w2 = (Returns (), Some d, w4)"
    using attempt_login_ok [OF session, of k cfg pl w2] k check
    by (simp add: calls w3_def w4_def)
  have run: "handleKeyProxyTask cfg e pl kp w = (tabReset e (Some d), w4)"
    using handle_nonterminal [OF nonterm, of cfg e pl] att by (simp add: w2_def)
  have "task_state w4 ?k ?p = Some ''success''" "task_point w4 ?k ?p = Some (store_point e v)"
    unfolding w4_def using update_state [OF _ s3] store by simp_all
  moreover have "login_calls w4 = login_calls w + (k + 1)" "check_calls w4 = check_calls w + 1"
    "fail_tasks_file w4 = fail_tasks_file w"
    by (simp_all add: w4_def w3_def calls)
  ultimately show ?thesis using run by (simp add: Let_def)
qed

subsection \<open>The claims about the orchestrator\<close>

text \<open>
  C1. A pair whose task row is already in state \<^verbatim>\<open>success\<close> or \<^verbatim>\<open>failed\<close>, when the
  read of the state succeeds: the handler returns at the skip. It creates no session and
  calls neither login nor check; the table \<^verbatim>\<open>task_monitoring\<close> (so the state and the
  point of the row) and the failure log are what they were. The world after differs from
  the world before only in the count of store statements (the two reads).
\<close>

theorem terminal_task_is_skipped:
  assumes "store_ok e (store_ops w + 1)"
    and "terminal (task_state w (kp_id kp) (kp_proxy kp))"
  shows "handleKeyProxyTask cfg e pl kp w = (Returns (), w\<lparr>store_ops := store_ops w + 2\<rparr>) \<and>
         (let w' = snd (handleKeyProxyTask cfg e pl kp w) in
            login_calls w' = login_calls w \<and> check_calls w' = check_calls w \<and>
            session_calls w' = session_calls w \<and>
            task_monitoring w' = task_monitoring w \<and>
            task_state w' (kp_id kp) (kp_proxy kp) = task_state w (kp_id kp) (kp_proxy kp) \<and>
            task_point w' (kp_id kp) (kp_proxy kp) = task_point w (kp_id kp) (kp_proxy kp) \<and>
            fail_tasks_file w' = fail_tasks_file w)"
  using handle_terminal [OF assms, of cfg pl]
  by (simp add: store_step_def task_state_def task_point_def)

theorem terminal_task_is_skipped_witness:
  "terminal (task_state ex_world_done 1 ''10.0.0.1:80'') \<and>
   handleKeyProxyTask default_config ex_env ex_plugin_never ex_pair ex_world_done =
     (Returns (), ex_world_done\<lparr>store_ops := 2\<rparr>)"
proof -
  have t: "terminal (task_state ex_world_done (kp_id ex_pair) (kp_proxy ex_pair))"
    by (simp add: terminal_def task_state_def select_task_def is_cntp_task_def
          ex_world_done_def ex_world_def ex_pair_def)
  have s: "store_ok ex_env (store_ops ex_world_done + 1)"
    by (simp add: ex_env_def)
  from terminal_task_is_skipped [OF s t, of default_config ex_plugin_never] t
  show ?thesis
    by (simp add: ex_world_done_def ex_world_def ex_pair_def)
qed

text \<open>
  Without the proviso the skip is not taken: on a store error \<^verbatim>\<open>getCNTPTaskState\<close>
  catches, answers \<^verbatim>\<open>null\<close>, and the handler attempts the pair. Here a row that was
  \<^verbatim>\<open>success\<close> with 12 points is \<^verbatim>\<open>failed\<close> with 0 points after two login calls.
\<close>

theorem unreadable_state_counterexample:
  "terminal (task_state ex_world_success 1 ''10.0.0.1:80'') \<and>
   task_point ex_world_success 1 ''10.0.0.1:80'' = Some (PointNumber 12) \<and>
   (let w' = snd (handleKeyProxyTask default_config ex_env_unreadable ex_plugin_never ex_pair
                    ex_world_success) in
      login_calls w' = 2 \<and>
      task_state w' 1 ''10.0.0.1:80'' = Some ''failed'' \<and>
      task_point w' 1 ''10.0.0.1:80'' = Some (PointNumber 0))"
  by (simp add: handleKeyProxyTask_def initializeCNTPTask_def getCNTPTaskState_def attempt_def
        updateCNTPTaskState_def logFailedTask_def login_loop.simps store_step_def
        task_state_def task_point_def select_task_def is_cntp_task_def terminal_def
        ex_world_success_def ex_world_def ex_env_unreadable_def ex_env_def ex_plugin_never_def
        ex_pair_def default_config_def Let_def)

text \<open>
  C2. A pair whose task is not terminal and whose login answers \<^verbatim>\<open>false\<close> at every call,
  with a store that answers, a session that starts and a failure log that can be read and
  written: the handler calls login exactly \<^verbatim>\<open>MAX_LOGIN_RETRIES\<close> times (2 in
  \<^verbatim>\<open>config.js\<close>) and never calls check; the row of the pair is then \<^verbatim>\<open>failed\<close> with
  point 0, and the failure log is the old one with exactly one record appended.
\<close>

theorem always_false_login_fails_task:
  assumes store: "\<forall>n. store_ok e n"
    and nonterm: "\<not> terminal (task_state w (kp_id kp) (kp_proxy kp))"
    and session: "createSession e (getProfilePath e (kp_the_key kp) (kp_proxy kp)) (kp_proxy kp) = Returns d"
    and login: "\<forall>n. plugin_login pl ''cntp'' n = Returns False"
    and logfile: "fail_tasks_file w \<noteq> Malformed" "writeFile_ok e"
  shows "let w' = snd (handleKeyProxyTask cfg e pl kp w) in
           login_calls w' = login_calls w + MAX_LOGIN_RETRIES cfg \<and>
           MAX_LOGIN_RETRIES default_config = 2 \<and>
           check_calls w' = check_calls w \<and>
           task_state w' (kp_id kp) (kp_proxy kp) = Some ''failed'' \<and>
           task_point w' (kp_id kp) (kp_proxy kp) = Some (PointNumber 0) \<and>
           fail_tasks_file w' = JsonArray (log_entries (fail_tasks_file w) @
             [\<lparr>fe_key = kp_the_key kp, fe_proxy = kp_proxy kp, fe_service = ''cntp'',
               fe_timestamp = now_iso e\<rparr>])"
proof -
  let ?k = "kp_id kp" and ?p = "kp_proxy kp"
  let ?pp = "getProfilePath e (kp_the_key kp) ?p"
  define w1 where "w1 = initializeCNTPTask e ?k ?p w"
  define w2 where "w2 = store_step w1"
  define w3 where "w3 = w2\<lparr>session_calls := session_calls w2 + 1\<rparr>"
  define w4 where "w4 = w3\<lparr>login_calls := login_calls w3 + (MAX_LOGIN_RETRIES cfg - 0)\<rparr>"
  define w5 where "w5 = updateCNTPTaskState e ?k ?p ''failed'' (PointNumber 0) w4"
  define w6 where "w6 = w5\<lparr>fail_tasks_file := JsonArray (log_entries (fail_tasks_file w5) @
          [\<lparr>fe_key = kp_the_key kp, fe_proxy = ?p, fe_service = ''cntp'', fe_timestamp = now_iso e\<rparr>])\<rparr>"
  obtain s where s1: "task_state w1 ?k ?p = Some s" "\<not> terminal (Some s)"
    using nonterm init_state [OF store, of ?k ?p w]
    by (auto simp: w1_def terminal_def split: option.splits)
  have get: "getCNTPTaskState e ?k ?p w1 = (Some s, w2)"
    using store s1 by (simp add: get_state w2_def)
  have loop: "login_loop cfg pl 0 w3 = (False, w4)"
    unfolding w4_def by (rule login_loop_never_true) (simp add: login)
  have s4: "task_state w4 ?k ?p = Some s"
    using s1 by (simp add: task_state_def w4_def w3_def w2_def)
  have log: "logFailedTask e (kp_the_key kp) ?p w5 = (Returns (), w6)"
    unfolding w6_def by (rule logFailedTask_ok) (simp_all add: w5_def w4_def w3_def w2_def w1_def logfile)
  have att: "attempt cfg e pl kp ?pp w2 = (Returns (), Some d, w6)"
    using loop log by (simp add: attempt_def session w3_def w5_def)
  have run: "handleKeyProxyTask cfg e pl kp w = (tabReset e (Some d), w6)"
    using get att s1 by (simp add: handleKeyProxyTask_def w1_def terminal_def)
  have "task_state w6 ?k ?p = task_state w5 ?k ?p" "task_point w6 ?k ?p = task_point w5 ?k ?p"
    by (simp_all add: w6_def task_state_def task_point_def)
  moreover have "task_state w5 ?k ?p = Some ''failed''" "task_point w5 ?k ?p = Some (PointNumber 0)"
    unfolding w5_def using update_state [OF _ s4] store by simp_all
  moreover have "login_calls w6 = login_calls w + MAX_LOGIN_RETRIES cfg"
    "check_calls w6 = check_calls w" "fail_tasks_file w5 = fail_tasks_file w"
    by (simp_all add: w6_def w5_def w4_def w3_def w2_def w1_def)
  ultimately show ?thesis
    using run by (simp add: Let_def default_config_def w6_def)
qed

theorem always_false_login_fails_task_witness:
  "(let w' = snd (handleKeyProxyTask default_config ex_env ex_plugin_never ex_pair ex_world) in
      login_calls w' = 2 \<and> check_calls w' = 0 \<and>
      task_state w' 1 ''10.0.0.1:80'' = Some ''failed'' \<and>
      task_point w' 1 ''10.0.0.1:80'' = Some (PointNumber 0) \<and>
      fail_tasks_file w' = JsonArray [\<lparr>fe_key = ''k1'', fe_proxy = ''10.0.0.1:80'',
        fe_service = ''cntp'', fe_timestamp = ''2025-01-01T00:00:00.000Z''\<rparr>])"
proof -
  have h1: "\<forall>n. store_ok ex_env n" by (simp add: ex_env_def)
  have h2: "\<not> terminal (task_state ex_world (kp_id ex_pair) (kp_proxy ex_pair))"
    by (simp add: terminal_def task_state_def select_task_def ex_world_def)
  have h3: "createSession ex_env (getProfilePath ex_env (kp_the_key ex_pair) (kp_proxy ex_pair))
      (kp_proxy ex_pair) = Returns 7"
    by (simp add: ex_env_def)
  have h4: "\<forall>n. plugin_login ex_plugin_never ''cntp'' n = Returns False"
    by (simp add: ex_plugin_never_def)
  have h5: "fail_tasks_file ex_world \<noteq> Malformed" by (simp add: ex_world_def)
  have h6: "writeFile_ok ex_env" by (simp add: ex_env_def)
  from always_false_login_fails_task [OF h1 h2 h3 h4 h5 h6, of default_config]
  show ?thesis
    by (simp add: Let_def default_config_def ex_world_def ex_pair_def ex_env_def log_entries_def)
qed

text \<open>
  C3. A pair whose task is not terminal, whose login answers \<^verbatim>\<open>false\<close> at the first call
  and \<^verbatim>\<open>true\<close> at the second, and whose check answers 37, with a store that answers
  and a session that starts: the row of the pair is then \<^verbatim>\<open>success\<close> with point 37,
  login has been called exactly twice and check exactly once.
\<close>

theorem second_login_then_check_succeeds:
  assumes store: "\<forall>n. store_ok e n"
    and nonterm: "\<not> terminal (task_state w (kp_id kp) (kp_proxy kp))"
    and session: "createSession e (getProfilePath e (kp_the_key kp) (kp_proxy kp)) (kp_proxy kp) = Returns d"
    and retries: "MAX_LOGIN_RETRIES cfg = 2"
    and login1: "plugin_login pl ''cntp'' (login_calls w) = Returns False"
    and login2: "plugin_login pl ''cntp'' (login_calls w + 1) = Returns True"
    and check: "plugin_check pl ''cntp'' (check_calls w) = Returns (CheckPoint (PointNumber 37))"
  shows "let w' = snd (handleKeyProxyTask cfg e pl kp w) in
           task_state w' (kp_id kp) (kp_proxy kp) = Some ''success'' \<and>
           task_point w' (kp_id kp) (kp_proxy kp) = Some (PointNumber 37) \<and>
           login_calls w' = login_calls w + 2 \<and>
           check_calls w' = check_calls w + 1"
proof -
  have "\<forall>j < 1. plugin_login pl ''cntp'' (login_calls w + j) \<noteq> Returns True"
    using login1 by simp
  from handle_success [OF store nonterm session _ login2 this check] retries
  show ?thesis by (simp add: Let_def)
qed

theorem second_login_then_check_succeeds_witness:
  "(let w' = snd (handleKeyProxyTask default_config ex_env ex_plugin_second ex_pair ex_world) in
      task_state w' 1 ''10.0.0.1:80'' = Some ''success'' \<and>
      task_point w' 1 ''10.0.0.1:80'' = Some (PointNumber 37) \<and>
      login_calls w' = 2 \<and> check_calls w' = 1)"
proof -
  have h1: "\<forall>n. store_ok ex_env n" by (simp add: ex_env_def)
  have h2: "\<not> terminal (task_state ex_world (kp_id ex_pair) (kp_proxy ex_pair))"
    by (simp add: terminal_def task_state_def select_task_def ex_world_def)
  have h3: "createSession ex_env (getProfilePath ex_env (kp_the_key ex_pair) (kp_proxy ex_pair))
      (kp_proxy ex_pair) = Returns 7"
    by (simp add: ex_env_def)
  have h4: "MAX_LOGIN_RETRIES default_config = 2" by (simp add: default_config_def)
  have h5: "plugin_login ex_plugin_second ''cntp'' (login_calls ex_world) = Returns False"
    by (simp add: ex_plugin_second_def ex_world_def)
  have h6: "plugin_login ex_plugin_second ''cntp'' (login_calls ex_world + 1) = Returns True"
    by (simp add: ex_plugin_second_def ex_world_def)
  have h7: "plugin_check ex_plugin_second ''cntp'' (check_calls ex_world) = Returns (CheckPoint (PointNumber 37))"
    by (simp add: ex_plugin_second_def)
  from second_login_then_check_succeeds [OF h1 h2 h3 h4 h5 h6 h7]
  show ?thesis by (simp add: Let_def ex_world_def ex_pair_def)
qed




text \<open>
  The coercion to 0 is made before the handler sees the value, inside
  \<^verbatim>\<open>CNTPService.check\<close>: when \<^verbatim>\<open>parseInt\<close> answers \<^verbatim>\<open>NaN\<close> on the value read from the
  page (\<^verbatim>\<open>N/A\<close> when the element is missing), that capability answers the number 0, and
  the row is \<^verbatim>\<open>success\<close> with point 0.
\<close>

lemma unreadable_value_gives_zero:
  assumes store: "\<forall>n. store_ok e n"
    and nonterm: "\<not> terminal (task_state w (kp_id kp) (kp_proxy kp))"
    and session: "createSession e (getProfilePath e (kp_the_key kp) (kp_proxy kp)) (kp_proxy kp) = Returns d"
    and login: "\<exists>k < MAX_LOGIN_RETRIES cfg. CNTPService_login (login_pages b (login_calls w + k))"
    and page: "cp_get_ok (check_pages b (check_calls w))" "cp_sleep_ok (check_pages b (check_calls w))"
    and nan: "js_parseInt rt (getValueSafe (check_pages b (check_calls w))) = None"
  shows "TokenPlugin_check rt b ''cntp'' (check_calls w) = Returns (CheckPoint (PointNumber 0)) \<and>
         (let w' = snd (handleKeyProxyTask cfg e (TokenPlugin rt b) kp w) in
            task_state w' (kp_id kp) (kp_proxy kp) = Some ''success'' \<and>
            task_point w' (kp_id kp) (kp_proxy kp) = Some (PointNumber 0) \<and>
            check_calls w' = check_calls w + 1)"
proof -
  let ?pl = "TokenPlugin rt b"
  have chk: "plugin_check ?pl ''cntp'' (check_calls w) = Returns (CheckPoint (PointNumber 0))"
    using page nan by (simp add: TokenPlugin_def TokenPlugin_check_def CNTPService_check_def)
  from login have "\<exists>k < MAX_LOGIN_RETRIES cfg. plugin_login ?pl ''cntp'' (login_calls w + k) = Returns True"
    by (simp add: TokenPlugin_def TokenPlugin_login_def)
  then obtain k where k: "k < MAX_LOGIN_RETRIES cfg"
      "plugin_login ?pl ''cntp'' (login_calls w + k) = Returns True"
      "\<forall>j < k. plugin_login ?pl ''cntp'' (login_calls w + j) \<noteq> Returns True"
    by (rule first_true_call)
  from handle_success [OF store nonterm session k chk] chk
  show ?thesis by (simp add: Let_def TokenPlugin_def)
qed

lemma missing_element_gives_zero:
  "getValueSafe (check_pages ex_browser 0) = ''N/A'' \<and>
   (let w' = snd (handleKeyProxyTask default_config ex_env (TokenPlugin ex_runtime ex_browser)
                    ex_pair ex_world) in
      task_state w' 1 ''10.0.0.1:80'' = Some ''success'' \<and>
      task_point w' 1 ''10.0.0.1:80'' = Some (PointNumber 0))"
proof -
  have h1: "\<forall>n. store_ok ex_env n" by (simp add: ex_env_def)
  have h2: "\<not> terminal (task_state ex_world (kp_id ex_pair) (kp_proxy ex_pair))"
    by (simp add: terminal_def task_state_def select_task_def ex_world_def)
  have h3: "createSession ex_env (getProfilePath ex_env (kp_the_key ex_pair) (kp_proxy ex_pair))
      (kp_proxy ex_pair) = Returns 7"
    by (simp add: ex_env_def)
  have h4: "\<exists>k < MAX_LOGIN_RETRIES default_config.
      CNTPService_login (login_pages ex_browser (login_calls ex_world + k))"
    by (rule exI [of _ 0]) (simp add: default_config_def ex_browser_def CNTPService_login_def)
  have h5: "cp_get_ok (check_pages ex_browser (check_calls ex_world))"
    "cp_sleep_ok (check_pages ex_browser (check_calls ex_world))"
    by (simp_all add: ex_browser_def)
  have v: "getValueSafe (check_pages ex_browser 0) = ''N/A''"
    by (simp add: ex_browser_def getValueSafe_def)
  have h6: "js_parseInt ex_runtime (getValueSafe (check_pages ex_browser (check_calls ex_world))) = None"
    using v by (simp add: ex_world_def ex_runtime_def)
  from unreadable_value_gives_zero [OF h1 h2 h3 h4 h5 h6] v
  show ?thesis by (simp add: Let_def ex_world_def ex_pair_def)
qed

text \<open>
  C8. A pair whose task is not terminal, and a fatal error in the attempt that is not a
  reported login or check failure: session creation throws, or the check call throws
  after a successful login. The handler then writes nothing to the table beyond the
  initial insert-if-absent (an existing row keeps its state and point), the task is
  still not terminal, no failure record is appended, and the profile directory is removed
  exactly when the policy flag is set (and the removal itself succeeds). The next run of
  the handler on that pair does not skip it: it asks for a session again.
\<close>

theorem fatal_error_leaves_task_pending:
  assumes nonterm: "\<not> terminal (task_state w (kp_id kp) (kp_proxy kp))"
    and fatal: "createSession e (getProfilePath e (kp_the_key kp) (kp_proxy kp)) (kp_proxy kp) = Throws \<or>
       ((\<exists>d. createSession e (getProfilePath e (kp_the_key kp) (kp_proxy kp)) (kp_proxy kp) = Returns d) \<and>
        (\<exists>k < MAX_LOGIN_RETRIES cfg. plugin_login pl ''cntp'' (login_calls w + k) = Returns True) \<and>
        plugin_check pl ''cntp'' (check_calls w) = Throws)"
  shows "let profilePath = getProfilePath e (kp_the_key kp) (kp_proxy kp);
             w' = snd (handleKeyProxyTask cfg e pl kp w) in
           task_monitoring w' = task_monitoring (initializeCNTPTask e (kp_id kp) (kp_proxy kp) w) \<and>
           (task_state w (kp_id kp) (kp_proxy kp) \<noteq> None \<longrightarrow> task_monitoring w' = task_monitoring w) \<and>
           \<not> terminal (task_state w' (kp_id kp) (kp_proxy kp)) \<and>
           fail_tasks_file w' = fail_tasks_file w \<and>
           removed_profiles w' =
             (if PROFILE_CLEANUP_ON_FAILURE cfg \<and> rmSync_ok e profilePath
              then removed_profiles w @ [profilePath] else removed_profiles w) \<and>
           (\<forall>e2 pl2. session_calls (snd (handleKeyProxyTask cfg e2 pl2 kp w')) = session_calls w' + 1)"
proof -
  let ?k = "kp_id kp" and ?p = "kp_proxy kp"
  let ?pp = "getProfilePath e (kp_the_key kp) ?p"
  define w1 where "w1 = initializeCNTPTask e ?k ?p w"
  define w2 where "w2 = store_step w1"
  have "\<exists>w3 dr. attempt cfg e pl kp ?pp w2 = (Throws, dr, w3) \<and>
      task_monitoring w3 = task_monitoring w2 \<and> fail_tasks_file w3 = fail_tasks_file w2 \<and>
      removed_profiles w3 = removed_profiles w2"
  proof -
    from fatal consider
      (session) "createSession e ?pp ?p = Throws"
      | (check) d where "createSession e ?pp ?p = Returns d"
          "\<exists>k < MAX_LOGIN_RETRIES cfg. plugin_login pl ''cntp'' (login_calls w + k) = Returns True"
          "plugin_check pl ''cntp'' (check_calls w) = Throws"
      by blast
    then show ?thesis
    proof cases
      case session
      then show ?thesis by (simp add: attempt_session_throws)
    next
      case check
      have c: "login_calls w2 = login_calls w" "check_calls w2 = check_calls w"
        by (simp_all add: w2_def w1_def)
      from check(2) obtain k where k: "k < MAX_LOGIN_RETRIES cfg"
        "plugin_login pl ''cntp'' (login_calls w + k) = Returns True"
        "\<forall>j < k. plugin_login pl ''cntp'' (login_calls w + j) \<noteq> Returns True"
        by (rule first_true_call)
      show ?thesis
        using attempt_login_ok [OF check(1), of k cfg pl w2] k check(3)
        by (simp add: c)
    qed
  qed
  then obtain w3 dr where att: "attempt cfg e pl kp ?pp w2 = (Throws, dr, w3)"
    and w3: "task_monitoring w3 = task_monitoring w2" "fail_tasks_file w3 = fail_tasks_file w2"
      "removed_profiles w3 = removed_profiles w2"
    by blast
  define w' where "w' = handleCleanup cfg e ?pp w3"
  have run: "handleKeyProxyTask cfg e pl kp w = (tabReset e dr, w')"
    using handle_nonterminal [OF nonterm, of cfg e pl] att by (simp add: w2_def w1_def w'_def)
  have tm: "task_monitoring w' = task_monitoring w1"
    by (simp add: w'_def w3 w2_def)
  have nt1: "\<not> terminal (task_state w1 ?k ?p)"
    unfolding w1_def using nonterm by (rule init_not_terminal)
  with tm have nt': "\<not> terminal (task_state w' ?k ?p)"
    by (simp add: task_state_def)
  have ff: "fail_tasks_file w' = fail_tasks_file w"
    by (simp add: w'_def w3 w2_def w1_def)
  have rp: "removed_profiles w' =
      (if PROFILE_CLEANUP_ON_FAILURE cfg \<and> rmSync_ok e ?pp
       then removed_profiles w @ [?pp] else removed_profiles w)"
    by (simp add: w'_def handleCleanup_def w3 w2_def w1_def)
  have again: "\<forall>e2 pl2. session_calls (snd (handleKeyProxyTask cfg e2 pl2 kp w')) = session_calls w' + 1"
    using nonterminal_is_attempted [OF nt'] by blast
  have keep: "task_state w ?k ?p \<noteq> None \<longrightarrow> task_monitoring w' = task_monitoring w"
    using tm by (simp add: w1_def init_keeps_existing)
  show ?thesis
    using run tm nt' ff rp again keep by (simp add: Let_def w1_def)
qed

theorem fatal_error_leaves_task_pending_witness:
  "createSession ex_env_crash ''/app/profiles/k1_10_0_0_1_80'' ''10.0.0.1:80'' = Throws \<and>
   (let w' = snd (handleKeyProxyTask default_config ex_env_crash ex_plugin_never ex_pair ex_world) in
      task_state w' 1 ''10.0.0.1:80'' = Some ''pending'' \<and>
      task_point w' 1 ''10.0.0.1:80'' = Some (PointNumber 0) \<and>
      fail_tasks_file w' = Absent \<and>
      removed_profiles w' = [''/app/profiles/k1_10_0_0_1_80''])"
proof -
  define w' where "w' = snd (handleKeyProxyTask default_config ex_env_crash ex_plugin_never ex_pair ex_world)"
  have h1: "\<not> terminal (task_state ex_world (kp_id ex_pair) (kp_proxy ex_pair))"
    by (simp add: terminal_def task_state_def select_task_def ex_world_def)
  have pp: "getProfilePath ex_env_crash (kp_the_key ex_pair) (kp_proxy ex_pair) =
      ''/app/profiles/k1_10_0_0_1_80''"
    by (simp add: getProfilePath_def alnum_def ex_env_crash_def ex_env_def ex_pair_def)
  have h2: "createSession ex_env_crash
      (getProfilePath ex_env_crash (kp_the_key ex_pair) (kp_proxy ex_pair)) (kp_proxy ex_pair) = Throws"
    by (simp add: ex_env_crash_def)
  have init: "task_monitoring (initializeCNTPTask ex_env_crash (kp_id ex_pair) (kp_proxy ex_pair) ex_world) =
      [\<lparr>t_id = 1, t_key_id = 1, t_proxy = ''10.0.0.1:80'', t_service = ''cntp'',
        t_state = ''pending'', t_retry_count = 0, t_point = PointNumber 0\<rparr>]"
    by (simp add: initializeCNTPTask_def ex_env_crash_def ex_env_def ex_world_def select_task_def
          store_step_def next_id_def ex_pair_def)
  have flag: "PROFILE_CLEANUP_ON_FAILURE default_config"
      "rmSync_ok ex_env_crash ''/app/profiles/k1_10_0_0_1_80''"
    by (simp_all add: default_config_def ex_env_crash_def ex_env_def)
  from fatal_error_leaves_task_pending [of ex_world ex_pair ex_env_crash default_config ex_plugin_never,
      OF h1 disjI1 [OF h2]]
  have tm: "task_monitoring w' =
      [\<lparr>t_id = 1, t_key_id = 1, t_proxy = ''10.0.0.1:80'', t_service = ''cntp'',
        t_state = ''pending'', t_retry_count = 0, t_point = PointNumber 0\<rparr>]"
    and ff: "fail_tasks_file w' = fail_tasks_file ex_world"
    and rp: "removed_profiles w' = removed_profiles ex_world @ [''/app/profiles/k1_10_0_0_1_80'']"
    unfolding Let_def w'_def [symmetric] pp init using flag by simp_all
  have "task_state w' 1 ''10.0.0.1:80'' = Some ''pending''" "task_point w' 1 ''10.0.0.1:80'' = Some (PointNumber 0)"
    by (simp_all add: tm task_state_def task_point_def select_task_def is_cntp_task_def)
  moreover have "fail_tasks_file w' = Absent" "removed_profiles w' = [''/app/profiles/k1_10_0_0_1_80'']"
    using ff rp by (simp_all add: ex_world_def)
  moreover have "createSession ex_env_crash ''/app/profiles/k1_10_0_0_1_80'' ''10.0.0.1:80'' = Throws"
    by (simp add: ex_env_crash_def)
  ultimately show ?thesis
    by (simp add: Let_def w'_def)
qed

subsection \<open>Where these properties end\<close>

text \<open>
  When the read of the state fails, the handler sees \<^verbatim>\<open>null\<close> and attempts the pair,
  also when its row is terminal.
\<close>

lemma unreadable_state_is_attempted:
  assumes "\<not> store_ok e (store_ops w + 1)"
    and "task_state w (kp_id kp) (kp_proxy kp) \<noteq> None"
  shows "session_calls (snd (handleKeyProxyTask cfg e pl kp w)) = session_calls w + 1"
proof -
  let ?pp = "getProfilePath e (kp_the_key kp) (kp_proxy kp)"
  have init: "initializeCNTPTask e (kp_id kp) (kp_proxy kp) w = store_step w"
    using assms(2) by (auto simp: initializeCNTPTask_def task_state_def)
  have get: "getCNTPTaskState e (kp_id kp) (kp_proxy kp) (store_step w) =
      (None, store_step (store_step w))"
    using assms(1) by (simp add: getCNTPTaskState_def store_step_def)
  have "session_calls (snd (snd (attempt cfg e pl kp ?pp (store_step (store_step w))))) =
      session_calls w + 1"
    by (simp add: attempt_session_calls)
  then show ?thesis
    by (auto simp: handleKeyProxyTask_def Let_def init get split: prod.splits outcome.splits)
qed

text \<open>
  When the failure log cannot be parsed, \<^verbatim>\<open>logFailedTask\<close> throws after the row has been
  set to \<^verbatim>\<open>failed\<close>: the row stays failed, no record is appended, and the throw goes
  to the cleanup.
\<close>

lemma unparsable_log_after_failed_login:
  assumes store: "\<forall>n. store_ok e n"
    and nonterm: "\<not> terminal (task_state w (kp_id kp) (kp_proxy kp))"
    and session: "createSession e (getProfilePath e (kp_the_key kp) (kp_proxy kp)) (kp_proxy kp) = Returns d"
    and login: "\<forall>n. plugin_login pl ''cntp'' n = Returns False"
    and logfile: "fail_tasks_file w = Malformed"
  shows "let w' = snd (handleKeyProxyTask cfg e pl kp w) in
           task_state w' (kp_id kp) (kp_proxy kp) = Some ''failed'' \<and>
           fail_tasks_file w' = Malformed \<and>
           removed_profiles w' = removed_profiles
             (handleCleanup cfg e (getProfilePath e (kp_the_key kp) (kp_proxy kp)) w)"
proof -
  let ?k = "kp_id kp" and ?p = "kp_proxy kp"
  let ?pp = "getProfilePath e (kp_the_key kp) ?p"
  define w2 where "w2 = store_step (initializeCNTPTask e ?k ?p w)"
  define w3 where "w3 = w2\<lparr>session_calls := session_calls w2 + 1\<rparr>"
  define w4 where "w4 = w3\<lparr>login_calls := login_calls w3 + (MAX_LOGIN_RETRIES cfg - 0)\<rparr>"
  define w5 where "w5 = updateCNTPTaskState e ?k ?p ''failed'' (PointNumber 0) w4"
  obtain s where s: "task_state w2 ?k ?p = Some s"
    using init_state [OF store, of ?k ?p w]
    by (auto simp: w2_def task_state_def split: option.splits)
  then have s4: "task_state w4 ?k ?p = Some s"
    by (simp add: task_state_def w4_def w3_def)
  have loop: "login_loop cfg pl 0 w3 = (False, w4)"
    unfolding w4_def by (rule login_loop_never_true) (simp add: login)
  have f5: "fail_tasks_file w5 = Malformed" "removed_profiles w5 = removed_profiles w"
    by (simp_all add: w5_def w4_def w3_def w2_def logfile)
  then have log: "logFailedTask e (kp_the_key kp) ?p w5 = (Throws, w5)"
    by (simp add: logFailedTask_def)
  have att: "attempt cfg e pl kp ?pp w2 = (Throws, Some d, w5)"
    using loop log by (simp add: attempt_def session w3_def w5_def)
  have run: "handleKeyProxyTask cfg e pl kp w = (tabReset e (Some d), handleCleanup cfg e ?pp w5)"
    using handle_nonterminal [OF nonterm, of cfg e pl] att by (simp add: w2_def)
  have "task_state w5 ?k ?p = Some ''failed''"
    unfolding w5_def using update_state(1) [OF _ s4] store by simp
  then have "task_state (handleCleanup cfg e ?pp w5) ?k ?p = Some ''failed''"
    by (simp add: task_state_def)
  moreover have "removed_profiles (handleCleanup cfg e ?pp w5) =
      removed_profiles (handleCleanup cfg e ?pp w)"
    using f5(2) by (simp add: handleCleanup_def)
  ultimately show ?thesis
    using run f5(1) by (simp add: Let_def)
qed

section \<open>Properties of the scheduler\<close>

lemma catch_resolves [simp]:
  "(case r of Throws \<Rightarrow> Returns () | Returns u \<Rightarrow> Returns u) = Returns ()"
  by (cases r) simp_all




text \<open>For any list of pairs, every pushed promise resolves, so the join returns.\<close>

lemma run_loop_promises:
  "fst (run_loop cfg e pairs taskPromises s) = taskPromises @ replicate (length pairs) (Returns ())"
proof (induction pairs arbitrary: taskPromises s)
  case Nil
  then show ?case by simp
next
  case (Cons kp rest)
  show ?case
    by (simp add: Let_def Cons.IH replicate_app_Cons_same)
qed

lemma promise_all_resolved: "promise_all (replicate n (Returns x)) = Returns (replicate n x)"
  by (induction n) simp_all

lemma run_completes: "fst (run cfg e s) = AllCompleted"
proof -
  obtain ps s1 where r: "run_loop cfg e (loadKeyProxyData e) [] s = (ps, s1)"
    by (cases "run_loop cfg e (loadKeyProxyData e) [] s")
  then have "ps = replicate (length (loadKeyProxyData e)) (Returns ())"
    using run_loop_promises [of cfg e "loadKeyProxyData e" "[]" s] by simp
  then show ?thesis
    using r by (simp add: run_def promise_all_resolved)
qed

text \<open>Without the catch of each unit, a unit that throws makes the join reject.\<close>

lemma join_without_catch_rejects:
  "promise_all [Returns (), Throws, Returns ()] = (Throws :: unit list outcome)"
  by simp

section \<open>Properties of the validator pool\<close>

lemma testProxy_proxy [simp]: "r_proxy (testProxy proxyUrl reply) = proxyUrl"
  by (simp add: testProxy_def Let_def split: http_reply.splits)

text \<open>
  C10. The result of the probe of one proxy: its proxy field is the input string; on HTTP
  200 (and no request error) the success list is \<^verbatim>\<open>["cntp"]\<close> and the fail list is
  empty, on every other reply the success list is empty and the fail list is
  \<^verbatim>\<open>["cntp"]\<close>. The two lists are never both non-empty and never both empty.
\<close>

theorem probe_result_has_one_tag:
  "r_proxy (testProxy proxyUrl reply) = proxyUrl \<and>
   (if reply = Response 200
    then r_success (testProxy proxyUrl reply) = [''cntp''] \<and> r_fail (testProxy proxyUrl reply) = []
    else r_success (testProxy proxyUrl reply) = [] \<and> r_fail (testProxy proxyUrl reply) = [''cntp'']) \<and>
   \<not> (r_success (testProxy proxyUrl reply) \<noteq> [] \<and> r_fail (testProxy proxyUrl reply) \<noteq> []) \<and>
   \<not> (r_success (testProxy proxyUrl reply) = [] \<and> r_fail (testProxy proxyUrl reply) = [])"
  by (cases reply) (simp_all add: testProxy_def Let_def)

theorem probe_result_has_one_tag_witness:
  "testProxy ''10.0.0.1:80'' (Response 200) =
     \<lparr>r_proxy = ''10.0.0.1:80'', r_success = [''cntp''], r_fail = []\<rparr> \<and>
   testProxy ''10.0.0.1:80'' (Response 503) =
     \<lparr>r_proxy = ''10.0.0.1:80'', r_success = [], r_fail = [''cntp'']\<rparr> \<and>
   testProxy ''10.0.0.1:80'' RequestError =
     \<lparr>r_proxy = ''10.0.0.1:80'', r_success = [], r_fail = [''cntp'']\<rparr>"
  using probe_result_has_one_tag [of "''10.0.0.1:80''" "Response 200"]
    probe_result_has_one_tag [of "''10.0.0.1:80''" "Response 503"]
    probe_result_has_one_tag [of "''10.0.0.1:80''" RequestError]
  by (simp add: testProxy_def Let_def)

lemma worker_on_message_proxies [simp]:
  "map r_proxy (worker_on_message replies proxies) = proxies"
proof -
  have "(r_proxy \<circ> (\<lambda>(k, proxy). testProxy proxy (replies k))) = snd"
    by (auto simp: fun_eq_iff)
  then show ?thesis by (simp add: worker_on_message_def)
qed

text \<open>The chunk loop with a positive chunk size returns, and its chunks are the array cut
  at the multiples of the chunk size.\<close>

lemma chunk_loop_total:
  assumes "0 < n"
  shows "\<exists>cs. chunk_loop arr n i chunks = Some (chunks @ cs) \<and> concat cs = drop i arr \<and>
           length cs = (length arr - i + n - 1) div n"
proof (induction "length arr - i" arbitrary: i chunks rule: less_induct)
  case less
  show ?case
  proof (cases "i < length arr")
    case False
    then have "chunk_loop arr n i chunks = Some (chunks @ [])"
      by (simp add: chunk_loop.simps [of arr n i chunks])
    moreover from False assms have "(length arr - i + n - 1) div n = 0" by simp
    ultimately show ?thesis using False by auto
  next
    case True
    let ?c = "slice arr i (i + n)"
    from True assms have "length arr - (i + n) < length arr - i" by simp
    from less [OF this, of "chunks @ [?c]"] obtain cs where
      cs: "chunk_loop arr n (i + n) (chunks @ [?c]) = Some ((chunks @ [?c]) @ cs)"
        "concat cs = drop (i + n) arr" "length cs = (length arr - (i + n) + n - 1) div n"
      by blast
    have run: "chunk_loop arr n i chunks = Some (chunks @ (?c # cs))"
      using True cs(1) by (simp add: chunk_loop.simps [of arr n i chunks])
    have cat: "concat (?c # cs) = drop i arr"
      using cs(2) by (simp add: slice_def add.commute [of i n] flip: drop_drop)
    define m where "m = length arr - i"
    have m: "0 < m" "length arr - (i + n) = m - n"
      using True by (simp_all add: m_def)
    have e2: "m + n - 1 = (m - 1) + n" using m(1) by simp
    have "Suc ((m - n + n - 1) div n) = (m + n - 1) div n"
    proof (cases "n \<le> m")
      case True
      then have e1: "m - n + n - 1 = m - 1" by simp
      show ?thesis unfolding e1 e2 using assms div_add_self2 [of n "m - 1"] by simp
    next
      case False
      then have e1: "m - n + n - 1 = n - 1" by simp
      have "(n - 1) div n = 0" "(m - 1) div n = 0" using assms False by simp_all
      then show ?thesis unfolding e1 e2 using assms div_add_self2 [of n "m - 1"] by simp
    qed
    then have len: "length (?c # cs) = (length arr - i + n - 1) div n"
      using cs(3) by (simp add: m m_def [symmetric])
    from run cat len show ?thesis by blast
  qed
qed

lemma chunkArray_total:
  assumes "0 < n"
  obtains cs where "chunkArray arr n = Some cs" "concat cs = arr" "length cs = (length arr + n - 1) div n"
  using chunk_loop_total [OF assms, of arr 0 "[]"] by (auto simp: chunkArray_def)

lemma chunk_count: "0 < n \<Longrightarrow> i < (m + n - 1) div n \<longleftrightarrow> i * n < (m::nat)"
proof -
  assume n: "0 < n"
  have "i < (m + n - 1) div n \<longleftrightarrow> Suc i \<le> (m + n - 1) div n" by auto
  also have "\<dots> \<longleftrightarrow> Suc i * n \<le> m + n - 1" using n by (simp add: less_eq_div_iff_mult_less_eq)
  also have "\<dots> \<longleftrightarrow> i * n < m" using n by auto
  finally show ?thesis .
qed

lemma promise_all_Throws: "Throws \<in> set ps \<Longrightarrow> promise_all ps = Throws"
  by (induction ps rule: promise_all.induct) (auto split: outcome.splits)

lemma promise_all_Returns: "promise_all (map Returns xs) = Returns xs"
  by (induction xs) simp_all

text \<open>The promises of step 3, for chunks numbered from n.\<close>

lemma workers_all_answer:
  assumes "\<forall>i. \<not> worker_error e i"
  shows "map (\<lambda>(index, chunk). processWithWorker e index chunk) (enumerate n proxyChunks) =
         map Returns (map (\<lambda>(index, chunk). worker_on_message (probe e index) chunk)
                          (enumerate n proxyChunks))"
  using assms by (simp add: processWithWorker_def case_prod_beta)

lemma results_proxies:
  "map r_proxy (concat (map (\<lambda>(index, chunk). worker_on_message (probe e index) chunk)
                            (enumerate n proxyChunks))) = concat proxyChunks"
  by (induction proxyChunks arbitrary: n) (simp_all add: map_concat)

lemma worker_fails:
  assumes "i < length proxyChunks" "worker_error e i"
  shows "promise_all (map (\<lambda>(index, chunk). processWithWorker e index chunk)
                          (enumerate 0 proxyChunks)) = Throws"
proof (rule promise_all_Throws)
  let ?ps = "map (\<lambda>(index, chunk). processWithWorker e index chunk) (enumerate 0 proxyChunks)"
  have "?ps ! i = Throws"
    using assms by (simp add: nth_enumerate_eq processWithWorker_def)
  moreover have "i < length ?ps" using assms(1) by simp
  ultimately show "Throws \<in> set ?ps" by (metis nth_mem)
qed

text \<open>A run of the pool whose workers all answer.\<close>

lemma pool_all_answer:
  assumes "read_proxies e = Returns proxyList" "\<forall>i. \<not> worker_error e i"
  shows "\<exists>proxyChunks combined w'.
           chunkArray proxyList PROXY_CHUNK_SIZE = Some proxyChunks \<and>
           processProxies e w = Some w' \<and>
           posted w' = posted w @ proxyChunks \<and>
           combinedResults w' = Some combined \<and>
           map r_proxy combined = proxyList"
proof -
  obtain cs where cs: "chunkArray proxyList PROXY_CHUNK_SIZE = Some cs" "concat cs = proxyList"
    by (rule chunkArray_total [of PROXY_CHUNK_SIZE proxyList]) (simp_all add: PROXY_CHUNK_SIZE_def)
  let ?all = "map (\<lambda>(index, chunk). worker_on_message (probe e index) chunk) (enumerate 0 cs)"
  have all: "promise_all (map (\<lambda>(index, chunk). processWithWorker e index chunk) (enumerate 0 cs)) =
      Returns ?all"
    by (simp only: workers_all_answer [OF assms(2)] promise_all_Returns)
  have px: "map r_proxy (concat ?all) = proxyList"
    using results_proxies [of e 0 cs] cs(2) by simp
  have "\<exists>w'. processProxies e w = Some w' \<and> posted w' = posted w @ cs \<and>
      combinedResults w' = Some (concat ?all)"
    using all cs(1) assms(1) by (simp add: processProxies_def Let_def)
  with cs(1) px show ?thesis by blast
qed

text \<open>
  C5. An input of 23 proxy strings, with the chunk size 10 of the source and workers that
  all answer: \<^verbatim>\<open>chunkArray\<close> returns exactly three chunks, of sizes 10, 10 and 3; one
  worker is posted each chunk; \<^verbatim>\<open>combinedResults\<close> has exactly 23 entries, whose proxy
  fields are the input list itself, in order. So the set of proxies is the set of the
  input, every string occurs as often as in the input, and exactly once when the input has
  no duplicates.
\<close>

theorem pool_of_23_proxies:
  assumes "read_proxies e = Returns proxyList"
    and "length proxyList = 23"
    and "\<forall>i. \<not> worker_error e i"
  shows "\<exists>c1 c2 c3 combined w'.
           chunkArray proxyList PROXY_CHUNK_SIZE = Some [c1, c2, c3] \<and>
           length c1 = 10 \<and> length c2 = 10 \<and> length c3 = 3 \<and>
           processProxies e w = Some w' \<and>
           posted w' = posted w @ [c1, c2, c3] \<and>
           combinedResults w' = Some combined \<and>
           length combined = 23 \<and>
           map r_proxy combined = proxyList \<and>
           set (map r_proxy combined) = set proxyList \<and>
           (\<forall>p. count_list (map r_proxy combined) p = count_list proxyList p) \<and>
           (distinct proxyList \<longrightarrow> distinct (map r_proxy combined))"
proof -
  let ?c1 = "take 10 proxyList" and ?c2 = "take 10 (drop 10 proxyList)"
    and ?c3 = "take 10 (drop 20 proxyList)"
  have chunks: "chunkArray proxyList PROXY_CHUNK_SIZE = Some [?c1, ?c2, ?c3]"
    using assms(2) by (simp add: chunkArray_def PROXY_CHUNK_SIZE_def chunk_loop.simps slice_def)
  from pool_all_answer [OF assms(1) assms(3), of w] chunks obtain combined w' where
    run: "processProxies e w = Some w'" "posted w' = posted w @ [?c1, ?c2, ?c3]"
      "combinedResults w' = Some combined" "map r_proxy combined = proxyList"
    by auto
  have "length (map r_proxy combined) = 23" using run(4) assms(2) by simp
  then have len: "length combined = 23" by simp
  have "length ?c1 = 10" "length ?c2 = 10" "length ?c3 = 3"
    using assms(2) by simp_all
  with chunks run len show ?thesis by (intro exI [of _ ?c1] exI [of _ ?c2] exI [of _ ?c3]
      exI [of _ combined] exI [of _ w']) simp
qed

theorem pool_of_23_proxies_witness:
  "\<exists>combined w'.
     chunkArray ex_proxies PROXY_CHUNK_SIZE =
       Some [[''a'', ''b'', ''c'', ''d'', ''e'', ''f'', ''g'', ''h'', ''i'', ''j''],
             [''k'', ''l'', ''m'', ''n'', ''o'', ''p'', ''q'', ''r'', ''s'', ''t''],
             [''u'', ''v'', ''w'']] \<and>
     processProxies ex_pool_env ex_pool = Some w' \<and>
     combinedResults w' = Some combined \<and> length combined = 23 \<and>
     map r_proxy combined = ex_proxies"
proof -
  have h1: "read_proxies ex_pool_env = Returns ex_proxies" by (simp add: ex_pool_env_def)
  have h2: "length ex_proxies = 23" by (simp add: ex_proxies_def)
  have h3: "\<forall>i. \<not> worker_error ex_pool_env i" by (simp add: ex_pool_env_def)
  have c: "chunkArray ex_proxies PROXY_CHUNK_SIZE =
       Some [[''a'', ''b'', ''c'', ''d'', ''e'', ''f'', ''g'', ''h'', ''i'', ''j''],
             [''k'', ''l'', ''m'', ''n'', ''o'', ''p'', ''q'', ''r'', ''s'', ''t''],
             [''u'', ''v'', ''w'']]"
    by (simp add: chunkArray_def PROXY_CHUNK_SIZE_def chunk_loop.simps slice_def ex_proxies_def)
  from pool_of_23_proxies [OF h1 h2 h3, of ex_pool] c show ?thesis by auto
qed

text \<open>
  C7. When the worker of a chunk that was posted (chunk i exists when i times the chunk
  size is below the length of the input) emits an error, \<^verbatim>\<open>Promise.all\<close> rejects, the
  run returns through its \<^verbatim>\<open>catch\<close> before the write step, and the table
  \<^verbatim>\<open>filtered_proxies\<close> is what it was; no combined result exists. The DELETE and the
  INSERTs are reached only with the results of all workers.
\<close>

theorem worker_failure_leaves_table:
  assumes "read_proxies e = Returns proxyList"
    and "i * PROXY_CHUNK_SIZE < length proxyList"
    and "worker_error e i"
  shows "\<exists>w'. processProxies e w = Some w' \<and>
               filtered_proxies w' = filtered_proxies w \<and>
               combinedResults w' = combinedResults w"
proof -
  obtain cs where cs: "chunkArray proxyList PROXY_CHUNK_SIZE = Some cs"
      "length cs = (length proxyList + PROXY_CHUNK_SIZE - 1) div PROXY_CHUNK_SIZE"
    by (rule chunkArray_total [of PROXY_CHUNK_SIZE proxyList]) (simp_all add: PROXY_CHUNK_SIZE_def)
  have "i < length cs"
    using assms(2) cs(2) chunk_count [of PROXY_CHUNK_SIZE i "length proxyList"]
    by (simp add: PROXY_CHUNK_SIZE_def)
  then have "promise_all (map (\<lambda>(index, chunk). processWithWorker e index chunk)
      (enumerate 0 cs)) = Throws"
    using assms(3) by (rule worker_fails)
  then show ?thesis
    using cs(1) assms(1) by (simp add: processProxies_def)
qed

theorem worker_failure_leaves_table_witness:
  "worker_error ex_pool_env_crash 1 \<and>
   (\<exists>w'. processProxies ex_pool_env_crash ex_pool = Some w' \<and>
      filtered_proxies w' = [\<lparr>r_proxy = ''old'', r_success = [''cntp''], r_fail = []\<rparr>])"
proof -
  have h1: "read_proxies ex_pool_env_crash = Returns ex_proxies"
    by (simp add: ex_pool_env_crash_def ex_pool_env_def)
  have h2: "1 * PROXY_CHUNK_SIZE < length ex_proxies"
    by (simp add: PROXY_CHUNK_SIZE_def ex_proxies_def)
  have h3: "worker_error ex_pool_env_crash 1" by (simp add: ex_pool_env_crash_def)
  from worker_failure_leaves_table [OF h1 h2 h3, of ex_pool] h3 show ?thesis
    by (auto simp: ex_pool_def)
qed

text \<open>Without a failing worker the same run rewrites the table.\<close>

lemma pool_rewrites_table:
  "\<exists>w'. processProxies ex_pool_env ex_pool = Some w' \<and>
     map r_proxy (filtered_proxies w') = ex_proxies"
  by (simp add: processProxies_def chunkArray_def PROXY_CHUNK_SIZE_def chunk_loop.simps slice_def
        ex_proxies_def ex_pool_env_def ex_pool_def processWithWorker_def worker_on_message_def
        enumerate_eq_zip upt_rec [of 0] upt_rec [of 1] upt_rec [of 2] upt_rec [of 3]
        testProxy_def insert_or_replace_def Let_def)

section \<open>Properties of the assignment stage\<close>

text \<open>The proxies handed out are the front of the proxy list, in order, one per key while
  they last.\<close>

lemma assign_keys_front:
  "concat (map a_proxies (assign_keys keys availableProxies)) =
     map r_proxy (take (length keys) availableProxies)"
proof (induction keys arbitrary: availableProxies)
  case Nil
  then show ?case by simp
next
  case (Cons k keys)
  show ?case
  proof (cases availableProxies)
    case Nil
    with Cons.IH [of "[]"] show ?thesis by simp
  next
    case (Cons p rest)
    with Cons.IH [of rest] show ?thesis by simp
  qed
qed

lemma assign_keys_keys: "map a_key (assign_keys keys availableProxies) = map k_key keys"
  by (induction keys arbitrary: availableProxies) (simp_all add: Let_def)

text \<open>
  C6. Five keys and three validated proxies, one proxy at most per key: the first three
  keys get the first, second and third proxy of the list, in that order, one each; the
  fourth and fifth key get an empty list. When the three proxies are different (the table
  they are read from has the proxy as its primary key), no proxy is in two assignments.
\<close>

theorem five_keys_three_proxies:
  "assignProxiesToKeys [k1, k2, k3, k4, k5] [p1, p2, p3] =
     [\<lparr>a_key = k_key k1, a_proxies = [r_proxy p1]\<rparr>,
      \<lparr>a_key = k_key k2, a_proxies = [r_proxy p2]\<rparr>,
      \<lparr>a_key = k_key k3, a_proxies = [r_proxy p3]\<rparr>,
      \<lparr>a_key = k_key k4, a_proxies = []\<rparr>,
      \<lparr>a_key = k_key k5, a_proxies = []\<rparr>] \<and>
   (distinct (map r_proxy [p1, p2, p3]) \<longrightarrow>
      distinct (concat (map a_proxies (assignProxiesToKeys [k1, k2, k3, k4, k5] [p1, p2, p3]))))"
  by (simp add: assignProxiesToKeys_def Let_def)

theorem five_keys_three_proxies_witness:
  "assignProxiesToKeys ex_keys ex_validated =
     [\<lparr>a_key = ''key1'', a_proxies = [''a'']\<rparr>,
      \<lparr>a_key = ''key2'', a_proxies = [''b'']\<rparr>,
      \<lparr>a_key = ''key3'', a_proxies = [''c'']\<rparr>,
      \<lparr>a_key = ''key4'', a_proxies = []\<rparr>,
      \<lparr>a_key = ''key5'', a_proxies = []\<rparr>] \<and>
   distinct (concat (map a_proxies (assignProxiesToKeys ex_keys ex_validated)))"
  using five_keys_three_proxies [of "\<lparr>k_key = ''key1''\<rparr>" "\<lparr>k_key = ''key2''\<rparr>"
      "\<lparr>k_key = ''key3''\<rparr>" "\<lparr>k_key = ''key4''\<rparr>" "\<lparr>k_key = ''key5''\<rparr>"
      "\<lparr>r_proxy = ''a'', r_success = [''cntp''], r_fail = []\<rparr>"
      "\<lparr>r_proxy = ''b'', r_success = [], r_fail = [''cntp'']\<rparr>"
      "\<lparr>r_proxy = ''c'', r_success = [''cntp''], r_fail = []\<rparr>"]
  by (simp add: ex_keys_def ex_validated_def)

end
